theory Spec2Isabelle
  imports Main "HOL-Library.Sublist"
begin

chapter \<open>The GCP cluster provisioner: a shallow embedding of provision.py and firestore_vm.py\<close>

text \<open>
  The development follows the two scripts of the provisioner instance:
  \<^verbatim>\<open>qprovisioner/scripts/provision.py\<close> (the reconciliation controller) and
  \<^verbatim>\<open>qprovisioner/scripts/firestore_vm.py\<close> (the document-store client).
  Part I embeds the code, function by function and under the source's names;
  Part II states and proves the properties.

  Conventions of the embedding.
  \<^item> A Python \<open>str\<close> is a \<open>string\<close>, one \<open>char\<close> per code point, so the model
    covers the code points below 256; every string the provisioner handles (addresses,
    bucket names, command output) is ASCII.
  \<^item> A Python \<open>int\<close> is an \<open>int\<close>.
  \<^item> An exception is a value of type \<open>error\<close>; a function that may raise returns
    \<open>error + 'a\<close>, with \<open>Inl\<close> for the exception.
  \<^item> \<open>logging\<close> calls only append to the local log file and are left out.
\<close>

section \<open>Part I: the embedding\<close>

subsection \<open>Exceptions\<close>

datatype error =
    ProvisioningError string
  | TimeoutExpired string int
  | ValueError
  | IndexError
  | KeyError
  | TypeError
  | AttributeError

subsection \<open>Python string primitives\<close>

text \<open>\<open>str.isspace\<close> on one code point below 256.\<close>

definition py_isspace :: "char \<Rightarrow> bool" where
  "py_isspace c =
     (c \<in> set [CHR 0x09, CHR 0x0A, CHR 0x0B, CHR 0x0C, CHR 0x0D, CHR 0x1C, CHR 0x1D,
                CHR 0x1E, CHR 0x1F, CHR 0x20, CHR 0x85, CHR 0xA0])"

text \<open>\<open>s.strip()\<close> and \<open>s.strip(chars)\<close>.\<close>

definition str_strip :: "string \<Rightarrow> string" where
  "str_strip s = rev (dropWhile py_isspace (rev (dropWhile py_isspace s)))"

definition str_strip_chars :: "string \<Rightarrow> string \<Rightarrow> string" where
  "str_strip_chars chars s =
     rev (dropWhile (\<lambda>c. c \<in> set chars) (rev (dropWhile (\<lambda>c. c \<in> set chars) s)))"

text \<open>\<open>s.split(sep)\<close> for a one-character separator: never the empty list.\<close>

fun str_split :: "char \<Rightarrow> string \<Rightarrow> string list" where
  "str_split sep [] = [[]]"
| "str_split sep (c # cs) =
     (if c = sep then [] # str_split sep cs
      else (case str_split sep cs of
              [] \<Rightarrow> [[c]]
            | part # parts \<Rightarrow> (c # part) # parts))"

text \<open>\<open>sep.join(items)\<close>.\<close>

fun str_join :: "string \<Rightarrow> string list \<Rightarrow> string" where
  "str_join sep [] = []"
| "str_join sep [x] = x"
| "str_join sep (x # y # ys) = x @ sep @ str_join sep (y # ys)"

text \<open>\<open>sub in s\<close> on strings.\<close>

fun str_contains :: "string \<Rightarrow> string \<Rightarrow> bool" where
  "str_contains sub [] = (sub = [])"
| "str_contains sub (c # cs) = (prefix sub (c # cs) \<or> str_contains sub cs)"

text \<open>
  \<open>s.replace(old, new)\<close> for a non-empty \<open>old\<close>: a left-to-right scan that
  replaces each occurrence and resumes after it. The counter is the number of characters
  of the occurrence still to be skipped.
\<close>

fun str_replace_scan :: "string \<Rightarrow> string \<Rightarrow> nat \<Rightarrow> string \<Rightarrow> string" where
  "str_replace_scan old new k [] = []"
| "str_replace_scan old new (Suc k) (c # cs) = str_replace_scan old new k cs"
| "str_replace_scan old new 0 (c # cs) =
     (if prefix old (c # cs) then new @ str_replace_scan old new (length old - 1) cs
      else c # str_replace_scan old new 0 cs)"

definition str_replace :: "string \<Rightarrow> string \<Rightarrow> string \<Rightarrow> string" where
  "str_replace old new s = str_replace_scan old new 0 s"

text \<open>
  \<open>str.isdigit\<close>: a non-empty string of digit characters. Below 256 these are
  \<open>0\<close> to \<open>9\<close> and the superscripts two, three and one, which \<open>int\<close> rejects.
\<close>

definition ascii_digit :: "char \<Rightarrow> bool" where
  "ascii_digit c = (c \<in> set ''0123456789'')"

definition py_isdigit_char :: "char \<Rightarrow> bool" where
  "py_isdigit_char c = (ascii_digit c \<or> c \<in> set [CHR 0xB2, CHR 0xB3, CHR 0xB9])"

definition str_isdigit :: "string \<Rightarrow> bool" where
  "str_isdigit s = (s \<noteq> [] \<and> list_all py_isdigit_char s)"

definition digit_value :: "char \<Rightarrow> nat" where
  "digit_value c = of_char c - 48"

definition nat_of_digits :: "string \<Rightarrow> nat" where
  "nat_of_digits s = foldl (\<lambda>acc c. 10 * acc + digit_value c) 0 s"

text \<open>
  \<open>int(s)\<close> on a string. The whitespace \<open>int\<close> drops around the number is
  narrower than that of \<open>str.strip\<close>: the separators 0x1C to 0x1F are not part of
  it. One sign is allowed, the digits may be grouped by single underscores, and a number
  of more than 4300 digits (the interpreter's limit on conversions, underscores and sign
  not counted) is refused; anything else is a \<open>ValueError\<close> too.
\<close>

definition int_isspace :: "char \<Rightarrow> bool" where
  "int_isspace c =
     (c \<in> set [CHR 0x09, CHR 0x0A, CHR 0x0B, CHR 0x0C, CHR 0x0D, CHR 0x20, CHR 0x85, CHR 0xA0])"

definition int_max_str_digits :: nat where
  "int_max_str_digits = 4300"

fun int_body_ok :: "string \<Rightarrow> bool" where
  "int_body_ok [] = False"
| "int_body_ok [c] = ascii_digit c"
| "int_body_ok (c # d # cs) =
     (ascii_digit c \<and>
      (if d = CHR ''_'' then cs \<noteq> [] \<and> int_body_ok cs else int_body_ok (d # cs)))"

definition py_int :: "string \<Rightarrow> error + int" where
  "py_int s =
     (let t = rev (dropWhile int_isspace (rev (dropWhile int_isspace s)));
          negative = (t \<noteq> [] \<and> hd t = CHR ''-'');
          body = (if t \<noteq> [] \<and> (hd t = CHR ''-'' \<or> hd t = CHR ''+'') then tl t else t);
          digits = filter (\<lambda>c. c \<noteq> CHR ''_'') body
      in if int_body_ok body \<and> length digits \<le> int_max_str_digits
         then Inr ((if negative then - 1 else 1) * int (nat_of_digits digits))
         else Inl ValueError)"

text \<open>
  \<open>str(n)\<close> on an integer. The integers the provisioner prints are counts, exit
  codes and configuration values that \<open>int\<close> has read, all below the limit of 4300
  digits at which \<open>str\<close> would raise.
\<close>

definition digit_char :: "nat \<Rightarrow> char" where
  "digit_char d = ''0123456789'' ! d"

function string_of_nat :: "nat \<Rightarrow> string" where
  "string_of_nat n =
     (if n < 10 then [digit_char n] else string_of_nat (n div 10) @ [digit_char (n mod 10)])"
  by pat_completeness auto
termination
  by (relation "measure id") auto

declare string_of_nat.simps [simp del]

definition py_str :: "int \<Rightarrow> string" where
  "py_str i = (if i < 0 then CHR ''-'' # string_of_nat (nat (- i)) else string_of_nat (nat i))"

text \<open>The slices \<open>xs[:n]\<close> and \<open>xs[n:]\<close>; a negative bound counts from the end.\<close>

definition slice_to :: "'a list \<Rightarrow> int \<Rightarrow> 'a list" where
  "slice_to xs n = (if 0 \<le> n then take (nat n) xs else take (length xs - nat (- n)) xs)"

definition slice_from :: "'a list \<Rightarrow> int \<Rightarrow> 'a list" where
  "slice_from xs n = (if 0 \<le> n then drop (nat n) xs else drop (length xs - nat (- n)) xs)"

text \<open>\<open>xs[0]\<close>, which raises \<open>IndexError\<close> on the empty list.\<close>

definition first_item :: "'a list \<Rightarrow> error + 'a" where
  "first_item xs = (case xs of [] \<Rightarrow> Inl IndexError | x # _ \<Rightarrow> Inr x)"

subsection \<open>provision.py: list encoding for the document store (lines 319-327)\<close>

definition serialize_list_for_firestore :: "string list \<Rightarrow> string" where
  "serialize_list_for_firestore items = (if items \<noteq> [] then str_join '','' items else '''')"

definition deserialize_list_from_firestore :: "string \<Rightarrow> string list" where
  "deserialize_list_from_firestore v =
     (if v = [] \<or> v = ''null'' then []
      else map str_strip (str_split CHR '','' v))"

subsection \<open>provision.py: version comparison (lines 274-301)\<close>

text \<open>
  One field of a version: \<open>int(p) if p.isdigit() else 0\<close>. The conversion raises on
  a field that \<open>isdigit\<close> accepts and \<open>int\<close> does not.
\<close>

definition version_field :: "string \<Rightarrow> error + int" where
  "version_field p = (if str_isdigit p then py_int p else Inr 0)"

text \<open>
  The loop over \<open>range(max_len)\<close>. Both lists have length \<open>max_len\<close> after the
  padding, so the loop visits the pairs of fields in order; the first differing pair
  decides.
\<close>

fun vercomp_fields :: "string list \<Rightarrow> string list \<Rightarrow> error + int" where
  "vercomp_fields (p # ps) (q # qs) =
     (case version_field p of
        Inl err \<Rightarrow> Inl err
      | Inr v1_num \<Rightarrow>
          (case version_field q of
             Inl err \<Rightarrow> Inl err
           | Inr v2_num \<Rightarrow>
               if v1_num > v2_num then Inr 2
               else if v1_num < v2_num then Inr 1
               else vercomp_fields ps qs))"
| "vercomp_fields _ _ = Inr 0"

definition vercomp :: "string \<Rightarrow> string \<Rightarrow> error + int" where
  "vercomp version1 version2 =
     (if version1 = version2 then Inr 0
      else
        let v1_parts = str_split CHR ''.'' version1;
            v2_parts = str_split CHR ''.'' version2;
            max_len = max (length v1_parts) (length v2_parts);
            v1_padded = v1_parts @ replicate (max_len - length v1_parts) ''0'';
            v2_padded = v2_parts @ replicate (max_len - length v2_parts) ''0''
        in vercomp_fields v1_padded v2_padded)"

subsection \<open>The outside world\<close>

text \<open>
  The provisioner talks to three things outside itself: shell commands (the cluster's
  \<open>qq\<close> client and \<open>gcloud\<close>), the document store over HTTP, and the system clock.
  What they answer is not decided by the program, so it is a parameter of the model: an
  \<open>env\<close> gives, for every moment of logical time, the outcome of each command, whether
  an HTTP request goes through, and the date. What the program changes is the \<open>world\<close>:
  the documents of the store, the commands issued so far, the network configuration
  file, and the logical time, which advances by one at every external interaction and by
  \<open>n\<close> at \<open>time.sleep(n)\<close>.
\<close>

text \<open>
  The outcome of \<open>subprocess.run\<close>: the process exits with a return code and its
  standard output (standard error is only logged), or it does not finish.
\<close>

datatype proc_outcome = Completed int string | Hangs

type_synonym completed_process = "int \<times> string"

abbreviation returncode :: "completed_process \<Rightarrow> int" where
  "returncode r \<equiv> fst r"

abbreviation stdout :: "completed_process \<Rightarrow> string" where
  "stdout r \<equiv> snd r"

datatype month = Jan | Feb | Mar | Apr | May | Jun | Jul | Aug | Sep | Oct | Nov | Dec

text \<open>\<open>datetime.now()\<close>: day, hour, minute and second are in their calendar ranges.\<close>

record datetime =
  dt_year :: nat
  dt_month :: month
  dt_day :: nat
  dt_hour :: nat
  dt_minute :: nat
  dt_second :: nat

text \<open>A JSON value, as \<open>json.load\<close> returns it (a \<open>dict\<close> as its list of items).\<close>

datatype json =
    JNull
  | JBool bool
  | JNum int
  | JStr string
  | JArr "json list"
  | JObj "(string \<times> json) list"

record env =
  run_reply :: "nat \<Rightarrow> string \<Rightarrow> proc_outcome"
  http_ok :: "nat \<Rightarrow> bool"
  now :: "nat \<Rightarrow> datetime"
  network_config_dump :: "nat \<Rightarrow> json option"

text \<open>
  A document of the store is its map from field names to values. Every field this system
  writes is a \<open>stringValue\<close>, so a value is a string. Documents are addressed by the
  URL the client requests.
\<close>

type_synonym document = "string \<rightharpoonup> string"

record world =
  clock :: nat
  docs :: "string \<rightharpoonup> document"
  issued :: "string list"
  network_config_file :: "json option"

text \<open>
  A computation takes the world and either does not return (\<open>None\<close>: a command
  without timeout that hangs, or a polling loop that never sees what it waits for) or
  returns its result or the exception it raised, with the world it leaves.
\<close>

type_synonym 'a io = "world \<Rightarrow> ((error + 'a) \<times> world) option"

definition io_ret :: "'a \<Rightarrow> 'a io" where
  "io_ret x = (\<lambda>w. Some (Inr x, w))"

definition io_raise :: "error \<Rightarrow> 'a io" where
  "io_raise err = (\<lambda>w. Some (Inl err, w))"

definition io_lift :: "error + 'a \<Rightarrow> 'a io" where
  "io_lift r = (\<lambda>w. Some (r, w))"

definition io_bind :: "'a io \<Rightarrow> ('a \<Rightarrow> 'b io) \<Rightarrow> 'b io" where
  "io_bind m f =
     (\<lambda>w. case m w of
             None \<Rightarrow> None
           | Some (Inl err, w') \<Rightarrow> Some (Inl err, w')
           | Some (Inr x, w') \<Rightarrow> f x w')"

definition io_then :: "'a io \<Rightarrow> 'b io \<Rightarrow> 'b io" where
  "io_then m n = io_bind m (\<lambda>_. n)"

definition io_when :: "bool \<Rightarrow> unit io \<Rightarrow> unit io" where
  "io_when b m = (if b then m else io_ret ())"

definition sleep :: "nat \<Rightarrow> unit io" where
  "sleep n = (\<lambda>w. Some (Inr (), w\<lparr>clock := clock w + n\<rparr>))"

subsection \<open>firestore_vm.py: the document-store client\<close>

text \<open>
  \<open>_make_request\<close> (lines 62-100) fetches an access token, sends the request and
  returns the decoded response, or \<open>None\<close> on any failure, a missing document (HTTP
  404) included. A \<open>GET\<close> answers with the document. A \<open>PATCH\<close> without an update
  mask, the only kind the client sends, replaces the document by the fields sent.
\<close>

definition make_request_get :: "env \<Rightarrow> string \<Rightarrow> world \<Rightarrow> document option \<times> world" where
  "make_request_get e url w =
     ((if http_ok e (clock w) then docs w url else None), w\<lparr>clock := clock w + 1\<rparr>)"

definition make_request_patch :: "env \<Rightarrow> string \<Rightarrow> document \<Rightarrow> world \<Rightarrow> bool \<times> world" where
  "make_request_patch e url flds w =
     (if http_ok e (clock w)
      then (True, w\<lparr>clock := clock w + 1, docs := (docs w)(url \<mapsto> flds)\<rparr>)
      else (False, w\<lparr>clock := clock w + 1\<rparr>))"

definition base_url :: string where
  "base_url = ''https://firestore.googleapis.com/v1''"

text \<open>The document path built in \<open>get_document\<close>, \<open>put_document\<close> and
  \<open>put_status_with_timestamp\<close>.\<close>

definition doc_url :: "string \<Rightarrow> string \<Rightarrow> string \<Rightarrow> string \<Rightarrow> string" where
  "doc_url project database collection key =
     base_url @ ''/'' @ ''projects/'' @ project @ ''/databases/'' @ database
       @ ''/documents/'' @ collection @ ''/'' @ key"

text \<open>\<open>get_token\<close> (lines 102-114).\<close>

definition get_token :: "string \<Rightarrow> string \<Rightarrow> string \<Rightarrow> string option" where
  "get_token project database collection =
     (if project = [] \<or> database = [] \<or> collection = [] then None
      else Some (project @ '':'' @ database @ '':'' @ collection))"

text \<open>\<open>get_document\<close> (lines 116-149): the field named like the document, or \<open>null\<close>.\<close>

definition get_document ::
  "env \<Rightarrow> string \<Rightarrow> string \<Rightarrow> string \<Rightarrow> string \<Rightarrow> string \<Rightarrow> world \<Rightarrow> string \<times> world" where
  "get_document e key project database collection token w =
     (if key = [] \<or> project = [] \<or> database = [] \<or> collection = [] \<or> token = []
      then (''null'', w)
      else
        case make_request_get e (doc_url project database collection key) w of
          (None, w') \<Rightarrow> (''null'', w')
        | (Some flds, w') \<Rightarrow>
            (case flds key of Some v \<Rightarrow> (v, w') | None \<Rightarrow> (''null'', w')))"

text \<open>\<open>put_document\<close> (lines 151-177): the value may be the empty string.\<close>

definition put_document ::
  "env \<Rightarrow> string \<Rightarrow> string \<Rightarrow> string \<Rightarrow> string \<Rightarrow> string \<Rightarrow> string \<Rightarrow> world \<Rightarrow> bool \<times> world" where
  "put_document e key project database collection token v w =
     (if key = [] \<or> project = [] \<or> database = [] \<or> collection = [] \<or> token = []
      then (False, w)
      else make_request_patch e (doc_url project database collection key) [key \<mapsto> v] w)"

text \<open>
  \<open>put_status_with_timestamp\<close> (lines 179-219). The field key is
  \<open>strftime("%b")\<close>, an underscore and \<open>strftime("%d_%H%M%S")\<close>: the month's
  abbreviation, the day, and the time to the second, each in two digits.
\<close>

fun month_abbr :: "month \<Rightarrow> string" where
  "month_abbr Jan = ''Jan''" | "month_abbr Feb = ''Feb''" | "month_abbr Mar = ''Mar''"
| "month_abbr Apr = ''Apr''" | "month_abbr May = ''May''" | "month_abbr Jun = ''Jun''"
| "month_abbr Jul = ''Jul''" | "month_abbr Aug = ''Aug''" | "month_abbr Sep = ''Sep''"
| "month_abbr Oct = ''Oct''" | "month_abbr Nov = ''Nov''" | "month_abbr Dec = ''Dec''"

definition two_digits :: "nat \<Rightarrow> string" where
  "two_digits n = [digit_char (n div 10), digit_char (n mod 10)]"

definition status_field_key :: "datetime \<Rightarrow> string" where
  "status_field_key t =
     month_abbr (dt_month t) @ ''_'' @ two_digits (dt_day t) @ ''_''
       @ two_digits (dt_hour t) @ two_digits (dt_minute t) @ two_digits (dt_second t)"

definition put_status_with_timestamp ::
  "env \<Rightarrow> string \<Rightarrow> string \<Rightarrow> string \<Rightarrow> string \<Rightarrow> string \<Rightarrow> world \<Rightarrow> bool \<times> world" where
  "put_status_with_timestamp e project database collection token status w =
     (if project = [] \<or> database = [] \<or> collection = [] \<or> token = [] \<or> status = []
      then (False, w)
      else
        let field_key = status_field_key (now e (clock w));
            url = doc_url project database collection ''last-run-status''
        in case make_request_get e url w of
             (existing_doc, w1) \<Rightarrow>
               let flds = (case existing_doc of
                             None \<Rightarrow> [''last-run-status'' \<mapsto> ''null'']
                           | Some doc_fields \<Rightarrow> doc_fields)
               in make_request_patch e url (flds(field_key \<mapsto> status)) w1)"

subsection \<open>provision.py: configuration (lines 48-107)\<close>

record config =
  cluster_name :: string
  admin_password :: string
  project :: string
  region :: string
  zone :: string
  gcs_bucket :: string
  subnet_cidr :: string
  node_ips :: "string list"
  node1_ip :: string
  fault_domain_ids :: "string list"
  instance_ids :: "string list"
  target_node_count :: int
  number_azs :: int
  cluster_persistent_storage_type :: string
  bucket_names :: "string list"
  bucket_uris :: "string list"
  capacity_limit :: int
  floating_ips :: "string list"
  cluster_secrets_name :: string
  storage_deployment_name :: string
  deployment_unique_name :: string
  existing_deployment_name :: "string option"
  functions_gcs_prefix :: string
  install_gcs_prefix :: string
  qumulo_package_url :: string
  tun_refill_iops :: int
  tun_refill_bps :: int
  tun_disk_count :: int
  flash_tput :: int
  flash_iops :: int
  replace_cluster :: bool
  dev_environment :: bool
  def_password :: string

subsection \<open>provision.py: FirestoreManager (lines 330-411)\<close>

text \<open>
  The manager caches the token of \<open>gettoken\<close>; the token is a function of the
  configuration, so the cache does not show.
\<close>

definition gettoken :: "config \<Rightarrow> string io" where
  "gettoken c =
     (case get_token (project c) (storage_deployment_name c) (deployment_unique_name c) of
        None \<Rightarrow> io_raise (ProvisioningError ''Failed to get Firestore token'')
      | Some token \<Rightarrow>
          if token = [] then io_raise (ProvisioningError ''Failed to get Firestore token'')
          else io_ret token)"

text \<open>\<open>deployment_name if deployment_name else self.config.deployment_unique_name\<close>:
  an absent or empty deployment name means this deployment.\<close>

definition resolve_deployment :: "config \<Rightarrow> string option \<Rightarrow> string" where
  "resolve_deployment c deployment_name =
     (case deployment_name of
        None \<Rightarrow> deployment_unique_name c
      | Some d \<Rightarrow> if d \<noteq> [] then d else deployment_unique_name c)"

definition firestore_get :: "env \<Rightarrow> config \<Rightarrow> string \<Rightarrow> string option \<Rightarrow> string io" where
  "firestore_get e c key deployment_name =
     io_bind (gettoken c) (\<lambda>token w.
       case get_document e key (project c) (storage_deployment_name c)
              (resolve_deployment c deployment_name) token w of
         (v, w') \<Rightarrow> Some (Inr v, w'))"

definition firestore_put :: "env \<Rightarrow> config \<Rightarrow> string \<Rightarrow> string \<Rightarrow> unit io" where
  "firestore_put e c key v =
     io_bind (gettoken c) (\<lambda>token w.
       case put_document e key (project c) (storage_deployment_name c)
              (deployment_unique_name c) token v w of
         (success, w') \<Rightarrow>
           if \<not> success
           then Some (Inl (ProvisioningError (''Failed to put Firestore document: '' @ key)), w')
           else Some (Inr (), w'))"

definition update_status :: "env \<Rightarrow> config \<Rightarrow> string \<Rightarrow> unit io" where
  "update_status e c status =
     io_bind (gettoken c) (\<lambda>token w.
       case put_status_with_timestamp e (project c) (storage_deployment_name c)
              (deployment_unique_name c) token status w of
         (success, w') \<Rightarrow>
           if \<not> success
           then Some (Inl (ProvisioningError (''Failed to put Firestore status: '' @ status)), w')
           else Some (Inr (), w'))"

definition firestore_put_list :: "env \<Rightarrow> config \<Rightarrow> string \<Rightarrow> string list \<Rightarrow> unit io" where
  "firestore_put_list e c key value_list =
     firestore_put e c key (serialize_list_for_firestore value_list)"

definition firestore_get_list ::
  "env \<Rightarrow> config \<Rightarrow> string \<Rightarrow> string option \<Rightarrow> string list io" where
  "firestore_get_list e c key deployment_name =
     io_bind (firestore_get e c key deployment_name) (\<lambda>v.
       io_ret (deserialize_list_from_firestore v))"

subsection \<open>provision.py: running commands (lines 204-243)\<close>

text \<open>
  \<open>run_command\<close>: a non-zero exit under \<open>check\<close> becomes a
  \<open>ProvisioningError\<close>. A process that does not finish is killed at the timeout and
  \<open>subprocess.TimeoutExpired\<close>, which carries the command and the timeout, escapes,
  since \<open>run_command\<close> catches only \<open>CalledProcessError\<close>; without a timeout the
  call does not return.
\<close>

definition run_command :: "env \<Rightarrow> string \<Rightarrow> int option \<Rightarrow> bool \<Rightarrow> completed_process io" where
  "run_command e cmd timeout check =
     (\<lambda>w. let w' = w\<lparr>clock := clock w + 1, issued := issued w @ [cmd]\<rparr> in
           case run_reply e (clock w) cmd of
             Hangs \<Rightarrow>
               (case timeout of
                  None \<Rightarrow> None
                | Some seconds \<Rightarrow> Some (Inl (TimeoutExpired cmd seconds), w'))
           | Completed rc out \<Rightarrow>
               if check \<and> rc \<noteq> 0
               then Some (Inl (ProvisioningError
                             (''Command failed with exit code '' @ py_str rc @ '': '' @ cmd)), w')
               else Some (Inr (rc, out), w'))"

definition gcloud_command :: "env \<Rightarrow> string \<Rightarrow> completed_process io" where
  "gcloud_command e args = run_command e (''gcloud '' @ args) (Some 300) True"

definition qq_command :: "env \<Rightarrow> string \<Rightarrow> string \<Rightarrow> completed_process io" where
  "qq_command e args host = run_command e (''./qq --host '' @ host @ '' '' @ args) (Some 300) True"

text \<open>\<open>json.dumps\<close> of a string without characters to escape.\<close>

definition json_dumps_str :: "string \<Rightarrow> string" where
  "json_dumps_str s = [CHR 0x22] @ s @ [CHR 0x22]"

definition set_qfsd_log_level :: "env \<Rightarrow> string \<Rightarrow> string \<Rightarrow> unit io" where
  "set_qfsd_log_level e qq_host level =
     (let json_data = ''{'' @ json_dumps_str ''level'' @ '': '' @ json_dumps_str level @ '', ''
                        @ json_dumps_str ''reset'' @ '': false}'';
          cmd = ''echo '' @ [CHR 0x27] @ json_data @ [CHR 0x27] @ '' | ./qq --host '' @ qq_host
                  @ '' raw PUT /v1/conf/log/module/%2F''
      in io_then (run_command e cmd None True) (io_ret ()))"

subsection \<open>provision.py: waiting for quorum (lines 304-316)\<close>

definition is_provisioning_error :: "error \<Rightarrow> bool" where
  "is_provisioning_error err = (case err of ProvisioningError _ \<Rightarrow> True | _ \<Rightarrow> False)"

text \<open>
  The loop has no bound in the source. The first argument bounds the number of polls the
  model follows; a loop that has not seen \<open>ACTIVE\<close> by then has not returned.
\<close>

fun wait_for_active_quorum :: "nat \<Rightarrow> env \<Rightarrow> string \<Rightarrow> unit io" where
  "wait_for_active_quorum 0 e qq_host = (\<lambda>w. None)"
| "wait_for_active_quorum (Suc fuel) e qq_host =
     (\<lambda>w. case qq_command e ''node_state_get'' qq_host w of
             None \<Rightarrow> None
           | Some (Inr result, w1) \<Rightarrow>
               if str_contains ''ACTIVE'' (stdout result) then Some (Inr (), w1)
               else io_then (sleep 5) (wait_for_active_quorum fuel e qq_host) w1
           | Some (Inl err, w1) \<Rightarrow>
               if is_provisioning_error err
               then io_then (sleep 5) (wait_for_active_quorum fuel e qq_host) w1
               else Some (Inl err, w1))"

subsection \<open>provision.py: cluster tunables (lines 414-432)\<close>

definition tunable_command :: "string \<Rightarrow> int \<Rightarrow> string \<Rightarrow> string" where
  "tunable_command qq_host configured_value tunable =
     ''echo '' @ [CHR 0x27] @ ''{'' @ json_dumps_str ''configured_value'' @ '': ''
       @ json_dumps_str (py_str configured_value) @ ''}'' @ [CHR 0x27]
       @ '' | ./qq --host '' @ qq_host @ '' raw PUT /v1/tunables/'' @ tunable"

definition apply_cluster_tunables :: "nat \<Rightarrow> env \<Rightarrow> string \<Rightarrow> int \<Rightarrow> int \<Rightarrow> int \<Rightarrow> unit io" where
  "apply_cluster_tunables fuel e qq_host refill_iops refill_bps disk_count =
     io_then (io_when (refill_iops \<noteq> 0)
                (io_then (run_command e
                            (tunable_command qq_host refill_iops ''credit_accountant_io_refill_iops'')
                            None True)
                   (io_ret ())))
    (io_then (io_when (refill_bps \<noteq> 0 \<and> disk_count \<noteq> 0)
                (io_then (run_command e
                            (tunable_command qq_host ((refill_bps * 1000 * 1000) div 4096)
                               ''credit_accountant_th_refill_blocks_per_second'')
                            None True)
                   (io_ret ())))
    (io_then (qq_command e ''raw POST /v1/debug/quorum/abandon-series'' qq_host)
    (io_then (wait_for_active_quorum fuel e qq_host)
             (set_qfsd_log_level e qq_host ''QM_LOG_INFO''))))"

subsection \<open>provision.py: surveying the cluster (lines 545-632)\<close>

text \<open>\<open>re.sub(r'[^0-9.]', '', line)\<close> keeps the ASCII digits and the periods.\<close>

definition digits_and_periods :: "string \<Rightarrow> string" where
  "digits_and_periods line = filter (\<lambda>c. ascii_digit c \<or> c = CHR ''.'') line"

definition get_qfsd_version :: "env \<Rightarrow> string \<Rightarrow> string io" where
  "get_qfsd_version e node_ip =
     io_bind (qq_command e ''version'' node_ip) (\<lambda>result.
       case find (str_contains ''revision_id'') (str_split CHR 0x0A (stdout result)) of
         Some line \<Rightarrow> io_ret (digits_and_periods line)
       | None \<Rightarrow> io_ret '''')"

text \<open>
  The probing loop of \<open>survey_cluster_state\<close> (lines 566-578), with the two counters
  as arguments. Only a \<open>ProvisioningError\<close> of the probe is caught.
\<close>

fun survey_probe :: "env \<Rightarrow> string list \<Rightarrow> int \<Rightarrow> int \<Rightarrow> (int \<times> int) io" where
  "survey_probe e [] out_quorum in_quorum = io_ret (out_quorum, in_quorum)"
| "survey_probe e (node_ip # rest) out_quorum in_quorum =
     (\<lambda>w. case qq_command e ''node_state_get'' node_ip w of
             None \<Rightarrow> None
           | Some (Inr result, w1) \<Rightarrow>
               if \<not> str_contains ''ACTIVE'' (stdout result)
               then survey_probe e rest (out_quorum + 1) in_quorum w1
               else survey_probe e rest out_quorum (in_quorum + 1) w1
           | Some (Inl err, w1) \<Rightarrow>
               if is_provisioning_error err
               then survey_probe e rest (out_quorum + 1) in_quorum w1
               else Some (Inl err, w1))"

definition survey_cluster_state :: "env \<Rightarrow> config \<Rightarrow> (int \<times> int \<times> string) io" where
  "survey_cluster_state e c =
     io_then (update_status e c ''Checking quorum state and boot status'')
    (io_bind (survey_probe e (node_ips c) 0 0) (\<lambda>(out_quorum, in_quorum).
     io_bind (case node_ips c of
                [] \<Rightarrow> io_ret ''''
              | first_ip # _ \<Rightarrow> get_qfsd_version e first_ip) (\<lambda>qfsd_version.
     io_then (update_status e c
                (''Qumulo Core version '' @ qfsd_version @ '' running on all ''
                   @ py_str (int (length (node_ips c))) @ '' nodes.''))
    (io_then (firestore_put e c ''installed-version'' qfsd_version)
    (io_bind (firestore_get e c ''creation-version'' None) (\<lambda>org_ver.
     io_then (io_when (org_ver = ''null'') (firestore_put e c ''creation-version'' qfsd_version))
             (io_ret (out_quorum, in_quorum, qfsd_version))))))))"

definition validate_qfsd_version :: "env \<Rightarrow> config \<Rightarrow> string \<Rightarrow> unit io" where
  "validate_qfsd_version e c qfsd_version =
     io_bind (io_lift (vercomp qfsd_version ''7.6.0'')) (\<lambda>check_version.
       if check_version = 0 \<or> check_version = 2 then io_ret ()
       else
         let error_msg = ''Qumulo Core version >= 7.6.0 is required. If this is a new deployment destroy it and redeploy with >= 7.6.0.''
         in io_then (update_status e c error_msg) (io_raise (ProvisioningError error_msg)))"

text \<open>
  \<open>parse_quorum_details\<close> (lines 607-632). The search
  \<open>re.search(r'"all_nodes":\s*\[(.*?)\]', text)\<close> tries each position from the left:
  the quoted name and a colon, any whitespace, an opening bracket, then the shortest run
  of characters other than a newline that is followed by a closing bracket. The group is
  that run.
\<close>

definition match_node_list :: "string \<Rightarrow> string \<Rightarrow> string option" where
  "match_node_list name s =
     (let lit = json_dumps_str name @ '':'' in
      if prefix lit s then
        (case dropWhile py_isspace (drop (length lit) s) of
           [] \<Rightarrow> None
         | c # body \<Rightarrow>
             if c = CHR ''['' then
               (let grp = takeWhile (\<lambda>c. c \<noteq> CHR '']'' \<and> c \<noteq> CHR 0x0A) body in
                case drop (length grp) body of
                  [] \<Rightarrow> None
                | d # _ \<Rightarrow> if d = CHR '']'' then Some grp else None)
             else None)
      else None)"

fun search_node_list :: "string \<Rightarrow> string \<Rightarrow> string option" where
  "search_node_list name [] = None"
| "search_node_list name (c # cs) =
     (case match_node_list name (c # cs) of
        Some grp \<Rightarrow> Some grp
      | None \<Rightarrow> search_node_list name cs)"

definition parse_node_list :: "string option \<Rightarrow> string list" where
  "parse_node_list m =
     (case m of
        None \<Rightarrow> []
      | Some grp \<Rightarrow>
          let nodes_str = str_strip grp in
          if nodes_str \<noteq> []
          then map (str_strip_chars [CHR '' '', CHR 0x22]) (str_split CHR '','' nodes_str)
          else [])"

definition parse_quorum_details ::
  "env \<Rightarrow> string \<Rightarrow> (string list \<times> string list \<times> string list) io" where
  "parse_quorum_details e qq_host =
     io_bind (qq_command e ''raw GET /v1/debug/quorum/details'' qq_host) (\<lambda>result.
       let quorum_details = stdout result in
       io_ret (parse_node_list (search_node_list ''all_nodes'' quorum_details),
               parse_node_list (search_node_list ''in_nodes'' quorum_details),
               parse_node_list (search_node_list ''out_nodes'' quorum_details)))"

subsection \<open>provision.py: determining the cluster operations (lines 663-762)\<close>

record operation_flags =
  new_cluster :: bool
  add_nodes :: bool
  remove_nodes :: bool
  add_buckets :: bool
  increase_limit :: bool

definition no_operations :: operation_flags where
  "no_operations =
     \<lparr>new_cluster = False, add_nodes = False, remove_nodes = False,
      add_buckets = False, increase_limit = False\<rparr>"

definition out_of_quorum_msg :: string where
  "out_of_quorum_msg =
     ''One or more nodes out of quorum in existing cluster. Rectify and restart the provisioner instance.''"

definition version_mismatch_msg :: "string \<Rightarrow> string \<Rightarrow> string" where
  "version_mismatch_msg current_ver add_ver =
     ''Cluster is running ver='' @ current_ver @ ''. Can'' @ [CHR 0x27] @ ''t add nodes running ver=''
       @ add_ver
       @ ''. Update CloudFormation or Terraform with previous node count to remove these nodes. Exiting.''"

text \<open>The list \<open>[x for x in new if x not in old]\<close>, used for addresses, bucket names
  and bucket URIs.\<close>

definition not_in :: "string list \<Rightarrow> string list \<Rightarrow> string list" where
  "not_in new old = filter (\<lambda>x. x \<notin> set old) new"

text \<open>
  The node changes of an existing cluster (lines 703-727): additions are the target
  addresses the persisted list does not have, guarded by the version check on the first
  of them; a removal is due when the persisted list is longer than the target count.
\<close>

definition determine_node_changes :: "env \<Rightarrow> config \<Rightarrow> operation_flags io" where
  "determine_node_changes e c =
     io_bind (firestore_get e c ''node-ips'' None) (\<lambda>old_ips_str.
       if old_ips_str \<noteq> ''null'' then
         io_bind (firestore_get_list e c ''node-ips'' None) (\<lambda>old_ips.
         io_bind
           (case not_in (node_ips c) old_ips of
              [] \<Rightarrow> io_ret False
            | first_upgrade_ip # _ \<Rightarrow>
                io_bind (get_qfsd_version e first_upgrade_ip) (\<lambda>add_ver.
                io_bind (firestore_get e c ''installed-version'' None) (\<lambda>current_ver.
                  if current_ver \<noteq> add_ver
                  then io_then (update_status e c (version_mismatch_msg current_ver add_ver))
                         (io_raise (ProvisioningError
                                      (version_mismatch_msg current_ver add_ver)))
                  else io_ret True)))
           (\<lambda>adding.
              io_ret (no_operations
                        \<lparr>add_nodes := adding,
                         remove_nodes := (int (length old_ips) > target_node_count c)\<rparr>)))
       else io_ret no_operations)"

text \<open>
  The first half of \<open>determine_cluster_operations\<close> (lines 669-727): the decision
  between a new and an existing cluster and, for an existing one in full quorum, the
  node changes.
\<close>

definition determine_node_operations ::
  "env \<Rightarrow> config \<Rightarrow> int \<Rightarrow> int \<Rightarrow> string \<Rightarrow> operation_flags io" where
  "determine_node_operations e c out_quorum in_quorum password =
     (if out_quorum = int (length (node_ips c)) \<and> in_quorum = 0
      then io_then (update_status e c ''All nodes out of quorum, NEW CLUSTER'')
                   (io_ret (no_operations\<lparr>new_cluster := True\<rparr>))
      else
        io_then (qq_command e (''login -u admin -p '' @ password) (node1_ip c))
       (io_bind (parse_quorum_details e (node1_ip c)) (\<lambda>(all_nodes, in_nodes, out_nodes).
        if length out_nodes > 0
        then io_then (update_status e c out_of_quorum_msg)
                     (io_raise (ProvisioningError out_of_quorum_msg))
        else
          io_then (update_status e c
                     ''Cluster in full quorum, checking for node add, node delete, and bucket additions'')
                  (determine_node_changes e c))))"

text \<open>
  The second half (lines 729-753): bucket additions and the capacity increase. On a
  replacement the persisted values are read from the existing deployment.
\<close>

definition determine_bucket_operations ::
  "env \<Rightarrow> config \<Rightarrow> operation_flags \<Rightarrow> operation_flags io" where
  "determine_bucket_operations e c flags =
     (let deployment = (if replace_cluster c then existing_deployment_name c else None) in
      io_bind (firestore_get_list e c ''bucket-names'' deployment) (\<lambda>old_bucket_names.
      io_bind (firestore_get_list e c ''bucket-uris'' deployment) (\<lambda>old_bucket_uris.
      io_bind (firestore_get e c ''soft-capacity-limit'' deployment) (\<lambda>old_limit_str.
        if \<not> new_cluster flags \<or> replace_cluster c then
          let new_bucket_names = not_in (bucket_names c) old_bucket_names;
              new_bucket_uris = not_in (bucket_uris c) old_bucket_uris;
              flags1 = (if new_bucket_names \<noteq> [] \<and> new_bucket_uris \<noteq> []
                        then flags\<lparr>add_buckets := True\<rparr> else flags)
          in if old_limit_str \<noteq> ''null'' then
               io_bind (io_lift (py_int old_limit_str)) (\<lambda>old_limit.
                 io_ret (if capacity_limit c > old_limit \<and> \<not> add_buckets flags1
                         then flags1\<lparr>increase_limit := True\<rparr> else flags1))
             else io_ret flags1
        else io_ret flags))))"

definition determine_cluster_operations ::
  "env \<Rightarrow> config \<Rightarrow> int \<Rightarrow> int \<Rightarrow> string \<Rightarrow> operation_flags io" where
  "determine_cluster_operations e c out_quorum in_quorum password =
     io_bind (determine_node_operations e c out_quorum in_quorum password)
       (determine_bucket_operations e c)"

subsection \<open>provision.py: bucket check and storage type (lines 770-797)\<close>

definition bucket_list_args :: "string \<Rightarrow> string \<Rightarrow> string" where
  "bucket_list_args bucket_name proj =
     ''storage objects list '' @ json_dumps_str (''gs://'' @ bucket_name)
       @ '' --project='' @ proj @ '' --limit=1''"

fun check_buckets_empty :: "env \<Rightarrow> string list \<Rightarrow> string \<Rightarrow> unit io" where
  "check_buckets_empty e [] proj = io_ret ()"
| "check_buckets_empty e (bucket_name # rest) proj =
     io_bind (gcloud_command e (bucket_list_args bucket_name proj)) (\<lambda>result.
       if str_strip (stdout result) \<noteq> []
       then io_raise (ProvisioningError
                        (''Bucket '' @ bucket_name
                           @ '' NOT EMPTY. Empty bucket(s) and restart provisioner.''))
       else check_buckets_empty e rest proj)"

definition get_storage_product_type :: "string \<Rightarrow> error + (string \<times> string \<times> string)" where
  "get_storage_product_type storage_type =
     (if storage_type = ''hot_gcs_std''
      then Inr (''ACTIVE_WITH_STANDARD_STORAGE'', ''Standard'', ''Hot'')
      else if storage_type = ''hot_s3_int''
      then Inr (''ACTIVE_WITH_INTELLIGENT_STORAGE'', ''Intelligent Tiering'', ''Hot'')
      else if storage_type = ''cold_s3_ia''
      then Inr (''ARCHIVE_WITH_IA_STORAGE'', ''Infrequent Access'', ''Cold'')
      else if storage_type = ''cold_s3_gir''
      then Inr (''ARCHIVE_WITH_GIR_STORAGE'', ''Glacier Instant Retrieval'', ''Cold'')
      else Inl (ProvisioningError (''Unknown storage type: '' @ storage_type)))"

subsection \<open>Reading the replies of \<open>node_state_get\<close>\<close>

text \<open>\<open>[line for line in stdout.split('\n') if name in line][0]\<close>.\<close>

definition first_line_with :: "string \<Rightarrow> string \<Rightarrow> error + string" where
  "first_line_with name out = first_item (filter (str_contains name) (str_split CHR 0x0A out))"

text \<open>The cluster id (lines 849-851 and 958-960).\<close>

definition cluster_uuid :: "string \<Rightarrow> error + string" where
  "cluster_uuid out =
     (case first_line_with ''cluster_id'' out of
        Inl err \<Rightarrow> Inl err
      | Inr cluster_id_line \<Rightarrow>
          Inr (str_strip (str_replace '','' '''' (str_replace [CHR 0x22] ''''
                 (str_replace ''cluster_id: '' '''' cluster_id_line)))))"

text \<open>The node id of one node (lines 913-915 and 1009-1011).\<close>

definition get_node_id :: "env \<Rightarrow> string \<Rightarrow> string io" where
  "get_node_id e node_ip =
     io_bind (qq_command e ''node_state_get'' node_ip) (\<lambda>result.
     io_bind (io_lift (first_line_with ''node_id'' (stdout result))) (\<lambda>node_id_line.
       io_ret (digits_and_periods node_id_line)))"

text \<open>The loop that collects the node ids of a list of addresses, in order.\<close>

fun get_node_ids :: "env \<Rightarrow> string list \<Rightarrow> string list io" where
  "get_node_ids e [] = io_ret []"
| "get_node_ids e (node_ip # rest) =
     io_bind (get_node_id e node_ip) (\<lambda>qid.
     io_bind (get_node_ids e rest) (\<lambda>qids.
       io_ret (qid # qids)))"

text \<open>\<open>[f"{ip},{fid}" for ip, fid in zip(node_ips, fault_domain_ids)]\<close>.\<close>

definition node_ips_fault_ids :: "string list \<Rightarrow> string list \<Rightarrow> string list" where
  "node_ips_fault_ids ips fids = map (\<lambda>(ip, fid). ip @ '','' @ fid) (zip ips fids)"

definition membership_args :: "string list \<Rightarrow> string list \<Rightarrow> string" where
  "membership_args ips fids =
     ''modify_object_backed_cluster_membership --node-ips-and-fault-domains ''
       @ str_join '' '' (node_ips_fault_ids ips fids) @ '' --batch''"

text \<open>The text of a list of plain strings in an f-string, as \<open>repr\<close> prints it.\<close>

definition py_repr_list :: "string list \<Rightarrow> string" where
  "py_repr_list xs =
     ''['' @ str_join '', '' (map (\<lambda>x. [CHR 0x27] @ x @ [CHR 0x27]) xs) @ '']''"

subsection \<open>provision.py: floating addresses (lines 1057-1153)\<close>

text \<open>Operations on the decoded network configuration.\<close>

definition json_get :: "json \<Rightarrow> string \<Rightarrow> json \<Rightarrow> error + json" where
  "json_get d k dflt =
     (case d of
        JObj kvs \<Rightarrow> Inr (case map_of kvs k of Some v \<Rightarrow> v | None \<Rightarrow> dflt)
      | _ \<Rightarrow> Inl AttributeError)"

definition json_item :: "json \<Rightarrow> string \<Rightarrow> error + json" where
  "json_item d k =
     (case d of
        JObj kvs \<Rightarrow> (case map_of kvs k of Some v \<Rightarrow> Inr v | None \<Rightarrow> Inl KeyError)
      | _ \<Rightarrow> Inl TypeError)"

definition json_first :: "json \<Rightarrow> error + json" where
  "json_first x =
     (case x of
        JArr vs \<Rightarrow> first_item vs
      | JStr s \<Rightarrow> (case s of [] \<Rightarrow> Inl IndexError | ch # _ \<Rightarrow> Inr (JStr [ch]))
      | JObj kvs \<Rightarrow> Inl KeyError
      | _ \<Rightarrow> Inl TypeError)"

definition json_len :: "json \<Rightarrow> error + nat" where
  "json_len x =
     (case x of
        JArr vs \<Rightarrow> Inr (length vs)
      | JObj kvs \<Rightarrow> Inr (length kvs)
      | JStr s \<Rightarrow> Inr (length s)
      | _ \<Rightarrow> Inl TypeError)"

fun alist_put :: "string \<Rightarrow> json \<Rightarrow> (string \<times> json) list \<Rightarrow> (string \<times> json) list" where
  "alist_put k v [] = [(k, v)]"
| "alist_put k v ((k', v') # kvs) =
     (if k = k' then (k, v) # kvs else (k', v') # alist_put k v kvs)"

definition json_set :: "json \<Rightarrow> string \<Rightarrow> json \<Rightarrow> error + json" where
  "json_set d k v = (case d of JObj kvs \<Rightarrow> Inr (JObj (alist_put k v kvs)) | _ \<Rightarrow> Inl TypeError)"

definition json_set_first :: "json \<Rightarrow> json \<Rightarrow> error + json" where
  "json_set_first x v =
     (case x of
        JArr vs \<Rightarrow> (case vs of [] \<Rightarrow> Inl IndexError | _ # rest \<Rightarrow> Inr (JArr (v # rest)))
      | JObj kvs \<Rightarrow> Inl KeyError
      | _ \<Rightarrow> Inl TypeError)"

definition write_network_config :: "json \<Rightarrow> unit io" where
  "write_network_config j = (\<lambda>w. Some (Inr (), w\<lparr>network_config_file := Some j\<rparr>))"

text \<open>The wait for the network configuration (lines 1091-1101), bounded like the wait
  for quorum.\<close>

fun wait_for_floating_addresses :: "nat \<Rightarrow> env \<Rightarrow> string \<Rightarrow> unit io" where
  "wait_for_floating_addresses 0 e qq_host = (\<lambda>w. None)"
| "wait_for_floating_addresses (Suc fuel) e qq_host =
     (\<lambda>w. case qq_command e ''network_v3_status'' qq_host w of
             None \<Rightarrow> None
           | Some (Inr result, w1) \<Rightarrow>
               if str_contains ''floating_addresses'' (stdout result) then Some (Inr (), w1)
               else io_then (sleep 5) (wait_for_floating_addresses fuel e qq_host) w1
           | Some (Inl err, w1) \<Rightarrow>
               if is_provisioning_error err
               then io_then (sleep 5) (wait_for_floating_addresses fuel e qq_host) w1
               else Some (Inl err, w1))"

definition initial_network_config :: "config \<Rightarrow> json" where
  "initial_network_config c =
     JObj [(''frontend_networks'',
            JArr [JObj [(''id'', JNum 1),
                        (''name'', JStr ''default''),
                        (''addresses'',
                         JObj [(''type'', JStr ''HOST''),
                               (''host_addresses'',
                                JObj [(''floating_ip_ranges'', JArr (map JStr (floating_ips c))),
                                      (''netmask'', JStr (subnet_cidr c))])])]])]"

definition apply_initial_floating_ips :: "nat \<Rightarrow> env \<Rightarrow> config \<Rightarrow> string \<Rightarrow> unit io" where
  "apply_initial_floating_ips fuel e c qq_host =
     (if floating_ips c = [] \<or> hd (floating_ips c) = [] then io_ret ()
      else
        io_then (write_network_config (initial_network_config c))
       (io_then (qq_command e ''network_v3_put_config --file network_config.json'' qq_host)
       (io_then (wait_for_floating_addresses fuel e qq_host)
       (io_then (update_status e c
                   (''Successfully applied '' @ py_str (int (length (floating_ips c)))
                      @ '' floating IPs: '' @ py_repr_list (floating_ips c)))
       (io_then (firestore_put_list e c ''float-ips'' (floating_ips c))
                (firestore_put e c ''floating-ip-count''
                   (py_str (int (length (floating_ips c))))))))))"

definition err_bind :: "error + 'a \<Rightarrow> ('a \<Rightarrow> error + 'b) \<Rightarrow> error + 'b" where
  "err_bind r f = (case r of Inl err \<Rightarrow> Inl err | Inr x \<Rightarrow> f x)"

text \<open>
  \<open>qq network_v3_get_config -o network_config.json\<close> writes the file, and
  \<open>json.load\<close> reads it back; a file that is not JSON raises a \<open>ValueError\<close>.
\<close>

definition read_network_config :: "env \<Rightarrow> string \<Rightarrow> json io" where
  "read_network_config e qq_host =
     (\<lambda>w. case qq_command e ''network_v3_get_config -o network_config.json'' qq_host w of
             None \<Rightarrow> None
           | Some (Inl err, w1) \<Rightarrow> Some (Inl err, w1)
           | Some (Inr result, w1) \<Rightarrow>
               (let w2 = w1\<lparr>network_config_file := network_config_dump e (clock w)\<rparr> in
                case network_config_file w2 of
                  None \<Rightarrow> Some (Inl ValueError, w2)
                | Some current_config \<Rightarrow> Some (Inr current_config, w2)))"

text \<open>\<open>current_config["frontend_networks"][0]\<close> followed by the three \<open>get\<close>
  calls and \<open>len\<close> (lines 1121-1124).\<close>

definition floating_ip_count :: "json \<Rightarrow> error + nat" where
  "floating_ip_count current_config =
     err_bind (json_item current_config ''frontend_networks'') (\<lambda>nets.
     err_bind (json_first nets) (\<lambda>net0.
     err_bind (json_get net0 ''addresses'' (JObj [])) (\<lambda>addresses.
     err_bind (json_get addresses ''host_addresses'' (JObj [])) (\<lambda>host_addresses.
     err_bind (json_get host_addresses ''floating_ip_ranges'' (JArr [])) json_len))))"

text \<open>Line 1131.\<close>

definition current_floating_ips :: "json \<Rightarrow> error + json" where
  "current_floating_ips current_config =
     err_bind (json_item current_config ''frontend_networks'') (\<lambda>nets.
     err_bind (json_first nets) (\<lambda>net0.
     err_bind (json_item net0 ''addresses'') (\<lambda>addresses.
     err_bind (json_item addresses ''host_addresses'') (\<lambda>host_addresses.
       json_item host_addresses ''floating_ip_ranges''))))"

text \<open>Line 1142: the assignment into the nested dictionaries.\<close>

definition set_floating_ips :: "json \<Rightarrow> string list \<Rightarrow> error + json" where
  "set_floating_ips current_config new_flips =
     err_bind (json_item current_config ''frontend_networks'') (\<lambda>nets.
     err_bind (json_first nets) (\<lambda>net0.
     err_bind (json_item net0 ''addresses'') (\<lambda>addresses.
     err_bind (json_item addresses ''host_addresses'') (\<lambda>host_addresses.
     err_bind (json_set host_addresses ''floating_ip_ranges'' (JArr (map JStr new_flips)))
       (\<lambda>host_addresses'.
     err_bind (json_set addresses ''host_addresses'' host_addresses') (\<lambda>addresses'.
     err_bind (json_set net0 ''addresses'' addresses') (\<lambda>net0'.
     err_bind (json_set_first nets net0') (\<lambda>nets'.
       json_set current_config ''frontend_networks'' nets'))))))))"

definition maybe_update_floating_ips :: "nat \<Rightarrow> env \<Rightarrow> config \<Rightarrow> string \<Rightarrow> unit io" where
  "maybe_update_floating_ips fuel e c qq_host =
     io_bind (read_network_config e qq_host) (\<lambda>current_config.
     io_bind (io_lift (err_bind (json_get current_config ''frontend_networks'' (JArr [])) json_len))
       (\<lambda>frontend_networks_length.
     io_bind (if frontend_networks_length > 0 then io_lift (floating_ip_count current_config)
              else io_ret 0) (\<lambda>ip_count.
       if frontend_networks_length = 0 \<or> ip_count = 0
       then apply_initial_floating_ips fuel e c qq_host
       else
         io_bind (io_lift (current_floating_ips current_config)) (\<lambda>current_flips.
           let new_flips = floating_ips c in
           if current_flips \<noteq> JArr (map JStr new_flips) then
             io_bind (io_lift (if new_flips = [] \<or> hd new_flips = []
                               then json_set current_config ''frontend_networks'' (JArr [])
                               else set_floating_ips current_config new_flips))
               (\<lambda>updated_config.
             io_then (write_network_config updated_config)
            (io_then (qq_command e ''network_v3_put_config --file network_config.json'' qq_host)
            (io_then (update_status e c
                        (''Successfully updated '' @ py_str (int (length new_flips))
                           @ '' floating IPs: '' @ py_repr_list new_flips))
            (io_then (firestore_put_list e c ''float-ips'' new_flips)
                     (firestore_put e c ''floating-ip-count''
                        (py_str (int (length new_flips))))))))
           else io_ret ()))))"

subsection \<open>provision.py: creating a cluster (lines 800-884)\<close>

definition create_cluster_args :: "config \<Rightarrow> string \<Rightarrow> string" where
  "create_cluster_args c product_type =
     str_join '' ''
       [''create_object_backed_cluster'',
        ''--cluster-name '' @ cluster_name c,
        ''--admin-password '' @ def_password c,
        ''--accept-eula'',
        ''--host-instance-id '' @ admin_password c,
        ''--product-type '' @ product_type,
        ''--object-storage-uris '' @ str_join '' '' (bucket_uris c),
        ''--node-ips-and-fault-domains ''
          @ str_join '' '' (node_ips_fault_ids (node_ips c) (fault_domain_ids c)),
        ''--usable-capacity-clamp '' @ py_str (capacity_limit c)]"

definition create_new_cluster :: "nat \<Rightarrow> env \<Rightarrow> config \<Rightarrow> string \<Rightarrow> unit io" where
  "create_new_cluster fuel e c password =
     io_then (check_buckets_empty e (bucket_names c) (project c))
    (io_bind (io_lift (get_storage_product_type (cluster_persistent_storage_type c)))
       (\<lambda>(product_type, s3_type, cnq_type).
     let qq_host = node1_ip c in
     io_then (update_status e c
                (''Forming first quorum and configuring cluster with ''
                   @ py_str (int (length (node_ips c))) @ '' nodes''))
    (io_then (set_qfsd_log_level e qq_host ''QM_LOG_DEBUG'')
    (io_then (qq_command e (create_cluster_args c product_type) qq_host)
    (io_then (wait_for_active_quorum fuel e qq_host)
    (io_bind (qq_command e ''node_state_get'' qq_host) (\<lambda>result.
     io_bind (io_lift (cluster_uuid (stdout result))) (\<lambda>uuid.
     io_then (firestore_put e c ''uuid'' uuid)
    (io_then (firestore_put_list e c ''node-ips'' (node_ips c))
    (io_then (firestore_put_list e c ''fault-domain-ids'' (fault_domain_ids c))
    (io_then (firestore_put_list e c ''instance-ids'' (instance_ids c))
    (io_then (firestore_put e c ''creation-number-azs'' (py_str (number_azs c)))
    (io_then (firestore_put e c ''cluster-type'' (''CNQ='' @ cnq_type @ '', GCS='' @ s3_type))
    (io_then (firestore_put e c ''soft-capacity-limit'' (py_str (capacity_limit c)))
    (io_then (firestore_put_list e c ''bucket-uris'' (bucket_uris c))
    (io_then (firestore_put_list e c ''bucket-names'' (bucket_names c))
    (io_then (firestore_put e c ''new-cluster'' ''false'')
    (io_then (update_status e c ''Setting cluster tunables if necessary'')
    (io_then (qq_command e (''login -u admin -p '' @ def_password c) qq_host)
    (io_then (apply_cluster_tunables fuel e qq_host (tun_refill_iops c) (tun_refill_bps c)
                (tun_disk_count c))
    (io_then (firestore_put e c ''tunables''
                (''refill_IOPS='' @ py_str (tun_refill_iops c) @ '', refill_Bps=''
                   @ py_str (if tun_refill_bps c \<noteq> 0 \<and> tun_disk_count c \<noteq> 0
                             then (tun_refill_bps c * 1000 * 1000) div 4096 else 0)))
    (io_then (io_when (dev_environment c)
                (io_then (qq_command e
                            ''set_monitoring_conf --mq-host staging-missionq.qumulo.com --nexus-host api.spog-staging.qumulo.com''
                            qq_host)
                   (io_ret ())))
    (io_then (apply_initial_floating_ips fuel e c qq_host)
    (io_then (qq_command e (''change_password -o '' @ def_password c @ '' -p '' @ password)
                qq_host)
             (io_ret ())))))))))))))))))))))))))"

subsection \<open>provision.py: membership changes (lines 887-1054)\<close>

text \<open>
  The validation loops (lines 936-942 and 1033-1039): poll the quorum details until all
  three lists have the expected sizes. The loop has no bound in the source; the first
  argument bounds the polls the model follows.
\<close>

fun wait_for_membership :: "nat \<Rightarrow> env \<Rightarrow> string \<Rightarrow> nat \<Rightarrow> unit io" where
  "wait_for_membership 0 e qq_host expected = (\<lambda>w. None)"
| "wait_for_membership (Suc fuel) e qq_host expected =
     io_bind (parse_quorum_details e qq_host) (\<lambda>(all_nodes, in_nodes, out_nodes).
       if length all_nodes = expected \<and> length in_nodes = expected \<and> length out_nodes = 0
       then io_ret ()
       else io_then (sleep 10) (wait_for_membership fuel e qq_host expected))"

text \<open>The check after the loop (lines 946-950 and 1043-1047): the first node of the
  membership that is one of the old ids raises.\<close>

definition old_node_msg :: "string \<Rightarrow> string" where
  "old_node_msg node_id = ''**Old Node: '' @ node_id @ '' not removed from quorum. Slack Support.''"

fun verify_old_nodes_removed :: "string list \<Rightarrow> string list \<Rightarrow> unit io" where
  "verify_old_nodes_removed [] old_node_ids = io_ret ()"
| "verify_old_nodes_removed (node_id # rest) old_node_ids =
     (if node_id \<in> set old_node_ids then io_raise (ProvisioningError (old_node_msg node_id))
      else verify_old_nodes_removed rest old_node_ids)"

definition firewall_update_args :: "string \<Rightarrow> string \<Rightarrow> string" where
  "firewall_update_args existing deployment =
     ''compute firewall-rules update '' @ existing @ ''-qumulo-internal ''
       @ ''--source-tags='' @ existing @ ''-cluster,'' @ deployment @ ''-cluster ''
       @ ''--target-tags='' @ existing @ ''-cluster,'' @ deployment @ ''-cluster''"

text \<open>
  \<open>replace_existing_cluster\<close> up to the end of its validation loop (lines 889-942):
  it records the node ids of the existing cluster, issues the membership change and waits
  for the new quorum to converge. The result is \<open>existing_node_ids\<close>.
\<close>

definition replace_existing_cluster_swap ::
  "nat \<Rightarrow> env \<Rightarrow> config \<Rightarrow> string \<Rightarrow> string list io" where
  "replace_existing_cluster_swap fuel e c password =
     io_bind (firestore_get e c ''node-ips'' (existing_deployment_name c)) (\<lambda>existing_ips_str.
     io_bind (firestore_get e c ''instance-ids'' (existing_deployment_name c)) (\<lambda>existing_ids_str.
       if existing_ips_str = ''null'' \<or> existing_ids_str = ''null''
       then io_raise (ProvisioningError
                        ''Cannot find existing cluster information for replacement'')
       else
     io_bind (firestore_get_list e c ''node-ips'' (existing_deployment_name c)) (\<lambda>existing_ips.
     io_bind (firestore_get_list e c ''instance-ids'' (existing_deployment_name c)) (\<lambda>existing_ids.
     io_then (update_status e c
                ''Detected CLUSTER REPLACE. Updating firewall rule for internode communication and detecting node IDs.'')
    (io_then (case existing_deployment_name c of
                None \<Rightarrow> io_ret ()
              | Some existing \<Rightarrow>
                  io_when (existing \<noteq> [])
                    (io_then (gcloud_command e
                                (firewall_update_args existing (deployment_unique_name c)))
                       (io_ret ())))
    (io_bind (get_node_ids e (map str_strip existing_ips)) (\<lambda>existing_node_ids.
     io_then (update_status e c
                ''Detected CLUSTER REPLACE. Adding new nodes to quorum and removing existing nodes from quorum.'')
    (io_bind (io_lift (first_item existing_ips)) (\<lambda>first_existing_ip.
     io_then (qq_command e (''login -u admin -p '' @ password) (str_strip first_existing_ip))
    (io_then (set_qfsd_log_level e (str_strip first_existing_ip) ''QM_LOG_DEBUG'')
    (io_then (qq_command e (membership_args (node_ips c) (fault_domain_ids c))
                (str_strip first_existing_ip))
    (io_then (update_status e c ''Detected CLUSTER REPLACE. Waiting for new quorum.'')
    (io_then (wait_for_active_quorum fuel e (node1_ip c))
    (io_then (sleep 1)
    (io_then (update_status e c
                ''Detected CLUSTER REPLACE. New quorum formed, validating node replacement.'')
    (io_then (wait_for_membership fuel e (node1_ip c) (length (node_ips c)))
             (io_ret existing_node_ids)))))))))))))))))"

text \<open>
  The whole of \<open>replace_existing_cluster\<close>: the swap, the fresh read of the
  membership, the check that no old node is left (lines 944-950), and the bookkeeping
  (lines 952-980).
\<close>

definition replace_existing_cluster :: "nat \<Rightarrow> env \<Rightarrow> config \<Rightarrow> string \<Rightarrow> unit io" where
  "replace_existing_cluster fuel e c password =
     io_bind (replace_existing_cluster_swap fuel e c password) (\<lambda>existing_node_ids.
     io_bind (parse_quorum_details e (node1_ip c)) (\<lambda>(all_nodes, in_nodes, out_nodes).
     io_then (verify_old_nodes_removed all_nodes existing_node_ids)
    (io_then (update_status e c
                (''Detected CLUSTER REPLACE: New quorum formed with ''
                   @ py_str (int (length (node_ips c))) @ '' new nodes as requested.''))
    (io_bind (firestore_get e c ''cluster-type'' (existing_deployment_name c))
       (\<lambda>existing_cluster_type.
     io_bind (qq_command e ''node_state_get'' (node1_ip c)) (\<lambda>result.
     io_bind (io_lift (cluster_uuid (stdout result))) (\<lambda>uuid.
     io_then (firestore_put e c ''uuid'' uuid)
    (io_then (firestore_put_list e c ''node-ips'' (node_ips c))
    (io_then (firestore_put_list e c ''fault-domain-ids'' (fault_domain_ids c))
    (io_then (firestore_put_list e c ''instance-ids'' (instance_ids c))
    (io_then (firestore_put e c ''creation-number-azs'' (py_str (number_azs c)))
    (io_then (firestore_put e c ''cluster-type'' existing_cluster_type)
    (io_then (firestore_put e c ''soft-capacity-limit'' (py_str (capacity_limit c)))
    (io_then (firestore_put_list e c ''bucket-uris'' (bucket_uris c))
    (io_then (firestore_put_list e c ''bucket-names'' (bucket_names c))
    (io_then (qq_command e (''login -u admin -p '' @ password) (node1_ip c))
    (io_then (maybe_update_floating_ips fuel e c (node1_ip c))
    (io_then (firestore_put e c ''new-cluster'' ''false'')
    (io_then (update_status e c ''Setting cluster tunables if necessary'')
             (apply_cluster_tunables fuel e (node1_ip c) (tun_refill_iops c)
                (tun_refill_bps c) (tun_disk_count c)))))))))))))))))))))"

definition add_cluster_nodes :: "nat \<Rightarrow> env \<Rightarrow> config \<Rightarrow> string list \<Rightarrow> unit io" where
  "add_cluster_nodes fuel e c upgrade_ips =
     io_then (update_status e c
                (''Quorum already exists, adding nodes to cluster (''
                   @ py_str (int (length (node_ips c))) @ '' total nodes)''))
    (io_then (qq_command e (membership_args (node_ips c) (fault_domain_ids c)) (node1_ip c))
    (io_bind (io_lift (first_item upgrade_ips)) (\<lambda>first_upgrade_ip.
     io_then (wait_for_active_quorum fuel e first_upgrade_ip)
    (io_then (firestore_put_list e c ''node-ips'' (node_ips c))
    (io_then (firestore_put_list e c ''fault-domain-ids'' (fault_domain_ids c))
             (firestore_put_list e c ''instance-ids'' (instance_ids c)))))))"

text \<open>
  \<open>remove_cluster_nodes\<close> up to the end of its validation loop (lines 1004-1039):
  it records the node ids, issues the membership change for the remaining nodes and
  waits for the smaller quorum to converge. The result is \<open>removed_node_ids\<close>, the
  recorded ids from position \<open>target_node_count\<close> on.
\<close>

definition remove_cluster_nodes_shrink :: "nat \<Rightarrow> env \<Rightarrow> config \<Rightarrow> string list io" where
  "remove_cluster_nodes_shrink fuel e c =
     io_bind (get_node_ids e (node_ips c)) (\<lambda>existing_node_ids.
     let remaining_node_ips = slice_to (node_ips c) (target_node_count c);
         remaining_fault_ids = slice_to (fault_domain_ids c) (target_node_count c);
         removed_node_ids = slice_from existing_node_ids (target_node_count c)
     in
     io_then (update_status e c
                (''Quorum already exists, removing '' @ py_str (int (length removed_node_ids))
                   @ '' nodes from cluster.''))
    (io_then (qq_command e (membership_args remaining_node_ips remaining_fault_ids) (node1_ip c))
    (io_then (wait_for_active_quorum fuel e (node1_ip c))
    (io_then (update_status e c ''New quorum formed, validating node removal.'')
    (io_then (wait_for_membership fuel e (node1_ip c) (length remaining_node_ips))
             (io_ret removed_node_ids))))))"

text \<open>
  The whole of \<open>remove_cluster_nodes\<close>: the shrink, the fresh read of the membership,
  the check that no removed node is left (lines 1041-1047), and the bookkeeping (lines
  1049-1054).
\<close>

definition remove_cluster_nodes :: "nat \<Rightarrow> env \<Rightarrow> config \<Rightarrow> unit io" where
  "remove_cluster_nodes fuel e c =
     io_bind (remove_cluster_nodes_shrink fuel e c) (\<lambda>removed_node_ids.
     io_bind (parse_quorum_details e (node1_ip c)) (\<lambda>(all_nodes, in_nodes, out_nodes).
     io_then (verify_old_nodes_removed all_nodes removed_node_ids)
    (io_then (update_status e c
                (''New quorum formed with ''
                   @ py_str (int (length (slice_to (node_ips c) (target_node_count c))))
                   @ '' node(s) as requested.''))
    (io_then (firestore_put_list e c ''node-ips'' (slice_to (node_ips c) (target_node_count c)))
    (io_then (firestore_put_list e c ''fault-domain-ids''
                (slice_to (fault_domain_ids c) (target_node_count c)))
             (firestore_put_list e c ''instance-ids''
                (slice_to (instance_ids c) (target_node_count c))))))))"

subsection \<open>provision.py: buckets, capacity and labels (lines 1156-1226)\<close>

definition update_capacity_limit :: "nat \<Rightarrow> env \<Rightarrow> config \<Rightarrow> string \<Rightarrow> unit io" where
  "update_capacity_limit fuel e c qq_host =
     io_then (update_status e c
                (''Increasing soft capacity limit to '' @ py_str (capacity_limit c)))
    (io_then (set_qfsd_log_level e qq_host ''QM_LOG_DEBUG'')
    (io_then (qq_command e (''capacity_clamp_set --clamp '' @ py_str (capacity_limit c)) qq_host)
    (io_then (wait_for_active_quorum fuel e qq_host)
    (io_then (set_qfsd_log_level e qq_host ''QM_LOG_INFO'')
             (firestore_put e c ''soft-capacity-limit'' (py_str (capacity_limit c)))))))"

definition add_object_buckets :: "nat \<Rightarrow> env \<Rightarrow> config \<Rightarrow> string \<Rightarrow> unit io" where
  "add_object_buckets fuel e c qq_host =
     (let deployment = (if replace_cluster c then existing_deployment_name c else None) in
      io_bind (firestore_get_list e c ''bucket-names'' deployment) (\<lambda>old_bucket_names.
      io_bind (firestore_get_list e c ''bucket-uris'' deployment) (\<lambda>old_bucket_uris.
      let new_bucket_names = not_in (bucket_names c) old_bucket_names;
          new_bucket_uris = not_in (bucket_uris c) old_bucket_uris
      in
      io_then (check_buckets_empty e new_bucket_names (project c))
     (io_then (update_status e c
                 (''Adding '' @ py_str (int (length new_bucket_names))
                    @ '' buckets for persistent storage''))
     (io_then (set_qfsd_log_level e qq_host ''QM_LOG_DEBUG'')
     (io_then (qq_command e (''add_object_storage_uris --uris '' @ str_join '' '' new_bucket_uris)
                 qq_host)
     (io_then (firestore_put_list e c ''bucket-uris'' (bucket_uris c))
     (io_then (firestore_put_list e c ''bucket-names'' (bucket_names c))
              (update_capacity_limit fuel e c qq_host)))))))))"

text \<open>
  The loop of \<open>update_instance_labels\<close> over \<open>enumerate(config.instance_ids)\<close>;
  the second argument is the index. \<open>config.node_ips[i]\<close> raises past the end of
  the addresses.
\<close>

fun update_instance_labels_from :: "env \<Rightarrow> config \<Rightarrow> nat \<Rightarrow> string list \<Rightarrow> unit io" where
  "update_instance_labels_from e c i [] = io_ret ()"
| "update_instance_labels_from e c i (instance_id # rest) =
     (let node_number = py_str (int i + 1) in
      if i < length (node_ips c) then
        io_bind (qq_command e ''node_state_get'' (node_ips c ! i)) (\<lambda>result.
        io_bind (io_lift (first_line_with ''node_id'' (stdout result))) (\<lambda>node_id_line.
        let qid = filter ascii_digit node_id_line in
        io_bind (gcloud_command e
                   (''compute instances list --project='' @ project c @ '' --filter=''
                      @ json_dumps_str (''id=( '' @ instance_id @ '' )'') @ '' --format=''
                      @ json_dumps_str ''value(zone)'')) (\<lambda>zone_result.
        io_then (gcloud_command e
                   (''compute instances update '' @ deployment_unique_name c @ ''-node-''
                      @ node_number @ '' --project='' @ project c @ '' --zone=''
                      @ str_strip (stdout zone_result) @ '' --update-labels=name=''
                      @ deployment_unique_name c @ ''-node-'' @ node_number @ ''-'' @ qid))
                (update_instance_labels_from e c (i + 1) rest))))
      else io_raise IndexError)"

definition update_instance_labels :: "env \<Rightarrow> config \<Rightarrow> unit io" where
  "update_instance_labels e c =
     io_then (update_status e c ''Updating cluster labels'')
             (update_instance_labels_from e c 0 (instance_ids c))"

subsection \<open>provision.py: executing the operations (lines 1229-1274)\<close>

definition cannot_replace_msg :: string where
  "cannot_replace_msg = ''Cannot replace cluster without deploying new nodes''"

definition execute_cluster_operations ::
  "nat \<Rightarrow> env \<Rightarrow> config \<Rightarrow> string \<Rightarrow> operation_flags \<Rightarrow> unit io" where
  "execute_cluster_operations fuel e c password flags =
     (let qq_host = node1_ip c in
      io_then
        (if new_cluster flags then
           (if replace_cluster c then replace_existing_cluster fuel e c password
            else create_new_cluster fuel e c password)
         else
           (if replace_cluster c then io_raise (ProvisioningError cannot_replace_msg)
            else
              io_then (qq_command e (''login -u admin -p '' @ password) qq_host)
             (io_then (io_when (add_nodes flags)
                         (io_bind (firestore_get_list e c ''node-ips'' None) (\<lambda>old_ips.
                            add_cluster_nodes fuel e c (not_in (node_ips c) old_ips))))
             (io_then (io_when (remove_nodes flags) (remove_cluster_nodes fuel e c))
                      (maybe_update_floating_ips fuel e c qq_host)))))
       (io_then (io_when (increase_limit flags) (update_capacity_limit fuel e c qq_host))
       (io_then (io_when (add_buckets flags) (add_object_buckets fuel e c qq_host))
                (update_instance_labels e c))))"

subsection \<open>Notions used in the statements\<close>

text \<open>
  What the specification says of the version comparison, written from its words to be
  compared with \<open>vercomp\<close>: two versions, given by the numbers of their fields, are
  compared number by number from the left, a field that one of them lacks counting as
  zero; the result is 0 for equal, 1 when the first is lower and 2 when it is higher.
\<close>

fun spec_version_compare :: "nat list \<Rightarrow> nat list \<Rightarrow> int" where
  "spec_version_compare [] [] = 0"
| "spec_version_compare (m # ms) [] = (if 0 < m then 2 else spec_version_compare ms [])"
| "spec_version_compare [] (n # ns) = (if 0 < n then 1 else spec_version_compare [] ns)"
| "spec_version_compare (m # ms) (n # ns) =
     (if n < m then 2 else if m < n then 1 else spec_version_compare ms ns)"

text \<open>A version field written as a decimal number: ASCII digits, at least one and at
  most 4300.\<close>

definition decimal_field :: "string \<Rightarrow> bool" where
  "decimal_field p = (p \<noteq> [] \<and> list_all ascii_digit p \<and> length p \<le> int_max_str_digits)"

text \<open>The configuration names a project, a database and a deployment, so that
  \<open>gettoken\<close> succeeds.\<close>

definition config_ok :: "config \<Rightarrow> bool" where
  "config_ok c =
     (project c \<noteq> [] \<and> storage_deployment_name c \<noteq> [] \<and> deployment_unique_name c \<noteq> [])"

text \<open>The URL of a document of a deployment's record, and of this deployment's
  status log.\<close>

definition record_url :: "config \<Rightarrow> string \<Rightarrow> string \<Rightarrow> string" where
  "record_url c deployment key = doc_url (project c) (storage_deployment_name c) deployment key"

definition status_url :: "config \<Rightarrow> string" where
  "status_url c = record_url c (deployment_unique_name c) ''last-run-status''"

text \<open>The value persisted under a key: the field of that name in the document at the
  URL, or \<open>null\<close> when the document or the field is absent.\<close>

definition stored :: "world \<Rightarrow> string \<Rightarrow> string \<Rightarrow> string" where
  "stored w url key =
     (case docs w url of
        None \<Rightarrow> ''null''
      | Some flds \<Rightarrow> (case flds key of None \<Rightarrow> ''null'' | Some v \<Rightarrow> v))"

text \<open>The deployment whose record the planner diffs buckets and capacity against.\<close>

definition diff_deployment :: "config \<Rightarrow> string" where
  "diff_deployment c =
     resolve_deployment c (if replace_cluster c then existing_deployment_name c else None)"

text \<open>The shell command that lists one object of a bucket.\<close>

definition bucket_list_cmd :: "string \<Rightarrow> string \<Rightarrow> string" where
  "bucket_list_cmd bucket_name proj = ''gcloud '' @ bucket_list_args bucket_name proj"

text \<open>The fields a status update starts from: those of the status document, or the
  single placeholder field when there is no document.\<close>

definition status_fields :: "world \<Rightarrow> string \<Rightarrow> document" where
  "status_fields w url =
     (case docs w url of None \<Rightarrow> [''last-run-status'' \<mapsto> ''null''] | Some flds \<Rightarrow> flds)"

text \<open>Two worlds hold the same records: their documents agree except, possibly, for
  the status log of this deployment.\<close>

definition same_records :: "config \<Rightarrow> world \<Rightarrow> world \<Rightarrow> bool" where
  "same_records c w w' = ((docs w')(status_url c := None) = (docs w)(status_url c := None))"

subsection \<open>Scenarios\<close>

text \<open>
  Concrete configurations, environments and worlds on which the properties of Part II
  are exercised. The deployment \<open>dep\<close> has three nodes and one bucket; \<open>old\<close> is
  the deployment a replacement takes over from.
\<close>

definition demo_time :: datetime where
  "demo_time =
     \<lparr>dt_year = 2025, dt_month = Jul, dt_day = 17, dt_hour = 12, dt_minute = 34, dt_second = 56\<rparr>"

definition demo_config :: config where
  "demo_config =
     \<lparr>cluster_name = ''demo'', admin_password = ''tmp'', project = ''p'', region = ''r'',
      zone = ''z'', gcs_bucket = ''g'', subnet_cidr = ''10.0.0.0/24'',
      node_ips = [''10.0.0.1'', ''10.0.0.2'', ''10.0.0.3''], node1_ip = ''10.0.0.1'',
      fault_domain_ids = [''1'', ''2'', ''3''], instance_ids = [''i1'', ''i2'', ''i3''],
      target_node_count = 3, number_azs = 1,
      cluster_persistent_storage_type = ''hot_gcs_std'',
      bucket_names = [''b1''], bucket_uris = [''gs://b1/''], capacity_limit = 200,
      floating_ips = [], cluster_secrets_name = ''s'', storage_deployment_name = ''db'',
      deployment_unique_name = ''dep'', existing_deployment_name = None,
      functions_gcs_prefix = '''', install_gcs_prefix = '''', qumulo_package_url = '''',
      tun_refill_iops = 0, tun_refill_bps = 0, tun_disk_count = 0, flash_tput = 0,
      flash_iops = 0, replace_cluster = False, dev_environment = False,
      def_password = ''Admin123!''\<rparr>"

text \<open>Every command exits with the given code and output; the store answers; the
  clock stands at \<open>demo_time\<close>.\<close>

definition flat_env :: "int \<Rightarrow> string \<Rightarrow> env" where
  "flat_env rc out =
     \<lparr>run_reply = (\<lambda>t cmd. Completed rc out), http_ok = (\<lambda>t. True), now = (\<lambda>t. demo_time),
      network_config_dump = (\<lambda>t. None)\<rparr>"

definition empty_world :: world where
  "empty_world = \<lparr>clock = 0, docs = Map.empty, issued = [], network_config_file = None\<rparr>"

text \<open>A world whose status log already has a field written at \<open>demo_time\<close>.\<close>

definition logged_world :: world where
  "logged_world =
     empty_world\<lparr>docs := [status_url demo_config \<mapsto>
                              [''last-run-status'' \<mapsto> ''null'', ''Jul_17_123456'' \<mapsto> ''A'']]\<rparr>"

text \<open>A computation keeps the records: whatever it returns, it leaves every document
  other than the status log as it found it.\<close>

definition keeps_records :: "config \<Rightarrow> 'a io \<Rightarrow> bool" where
  "keeps_records c m = (\<forall>w r w'. m w = Some (r, w') \<longrightarrow> same_records c w w')"

text \<open>The record the deployment \<open>old\<close> left behind: one bucket and a capacity limit
  of 100.\<close>

definition old_record_world :: world where
  "old_record_world =
     empty_world\<lparr>docs :=
       [record_url demo_config ''old'' ''bucket-names'' \<mapsto> [''bucket-names'' \<mapsto> ''b1''],
        record_url demo_config ''old'' ''bucket-uris'' \<mapsto> [''bucket-uris'' \<mapsto> ''gs://b1/''],
        record_url demo_config ''old'' ''soft-capacity-limit''
          \<mapsto> [''soft-capacity-limit'' \<mapsto> ''100'']]\<rparr>"

text \<open>A replacement of \<open>old\<close> by \<open>dep\<close>, with the same bucket and with one bucket
  more.\<close>

definition replace_config :: config where
  "replace_config = demo_config\<lparr>replace_cluster := True, existing_deployment_name := Some ''old''\<rparr>"

definition replace_config_more_buckets :: config where
  "replace_config_more_buckets =
     replace_config\<lparr>bucket_names := [''b1'', ''b2''], bucket_uris := [''gs://b1/'', ''gs://b2/'']\<rparr>"

text \<open>Replies of the cluster: a node's state, and the coordinator's quorum details
  with the given members as its whole membership, all in quorum.\<close>

definition node_state :: "string \<Rightarrow> string" where
  "node_state node_id = ''{\"node_id\": '' @ node_id @ '', \"state\": \"ACTIVE\"}''"

definition quorum_details :: "string \<Rightarrow> string" where
  "quorum_details members =
     ''{\"all_nodes\": ['' @ members @ ''], \"in_nodes\": ['' @ members @ ''], \"out_nodes\": []}''"

text \<open>
  A running three-node cluster: its record holds the three addresses and the installed
  version, and a fourth machine at 10.0.0.4 runs the same version. Each machine answers
  \<open>node_state_get\<close> with its id and an active state. Up to logical time 100 the
  coordinator reports the nodes 1, 2 and 3 in quorum, and from then on the nodes 1 and 2,
  as after a change of membership to the first two addresses.
\<close>

definition running_world :: world where
  "running_world =
     empty_world\<lparr>docs :=
       [record_url demo_config ''dep'' ''node-ips''
          \<mapsto> [''node-ips'' \<mapsto> ''10.0.0.1,10.0.0.2,10.0.0.3''],
        record_url demo_config ''dep'' ''installed-version''
          \<mapsto> [''installed-version'' \<mapsto> ''7.6.0''],
        record_url demo_config ''dep'' ''bucket-names'' \<mapsto> [''bucket-names'' \<mapsto> ''b1''],
        record_url demo_config ''dep'' ''bucket-uris'' \<mapsto> [''bucket-uris'' \<mapsto> ''gs://b1/''],
        record_url demo_config ''dep'' ''soft-capacity-limit''
          \<mapsto> [''soft-capacity-limit'' \<mapsto> ''200'']]\<rparr>"

definition running_reply :: "nat \<Rightarrow> string \<Rightarrow> proc_outcome" where
  "running_reply t cmd =
     (if cmd = ''./qq --host 10.0.0.1 raw GET /v1/debug/quorum/details''
      then Completed 0 (quorum_details (if t < 100 then ''1, 2, 3'' else ''1, 2''))
      else if cmd = ''./qq --host 10.0.0.4 version''
      then Completed 0 ''revision_id: \"Qumulo Core 7.6.0\"''
      else if cmd = ''./qq --host 10.0.0.1 node_state_get'' then Completed 0 (node_state ''1'')
      else if cmd = ''./qq --host 10.0.0.2 node_state_get'' then Completed 0 (node_state ''2'')
      else if cmd = ''./qq --host 10.0.0.4 node_state_get'' then Completed 0 (node_state ''4'')
      else Completed 0 [])"

definition running_env :: env where
  "running_env = (flat_env 0 [])\<lparr>run_reply := running_reply\<rparr>"

text \<open>A target that swaps the third node for 10.0.0.4 and keeps two nodes.\<close>

definition swap_config :: config where
  "swap_config =
     demo_config\<lparr>node_ips := [''10.0.0.1'', ''10.0.0.2'', ''10.0.0.4''], target_node_count := 2\<rparr>"

text \<open>The world in which the removal of that target starts, at logical time 100.\<close>

definition removal_world :: world where
  "removal_world = running_world\<lparr>clock := 100\<rparr>"

text \<open>
  Shrinking the three-node cluster to two nodes. Each node answers \<open>node_state_get\<close>
  with its id and an active state; the coordinator reports the given members as its
  whole membership, all in quorum.
\<close>

definition shrink_reply :: "string \<Rightarrow> nat \<Rightarrow> string \<Rightarrow> proc_outcome" where
  "shrink_reply members t cmd =
     (if cmd = ''./qq --host 10.0.0.1 node_state_get'' then Completed 0 (node_state ''1'')
      else if cmd = ''./qq --host 10.0.0.2 node_state_get'' then Completed 0 (node_state ''2'')
      else if cmd = ''./qq --host 10.0.0.3 node_state_get'' then Completed 0 (node_state ''3'')
      else if cmd = ''./qq --host 10.0.0.1 raw GET /v1/debug/quorum/details''
      then Completed 0 (quorum_details members)
      else Completed 0 [])"

definition shrink_env :: "string \<Rightarrow> env" where
  "shrink_env members = (flat_env 0 [])\<lparr>run_reply := shrink_reply members\<rparr>"

definition shrink_config :: config where
  "shrink_config = demo_config\<lparr>target_node_count := 2\<rparr>"

text \<open>
  The second node does not answer: its \<open>node_state_get\<close> does not finish, while the
  other nodes report an active state.
\<close>

definition stalled_reply :: "nat \<Rightarrow> string \<Rightarrow> proc_outcome" where
  "stalled_reply t cmd =
     (if cmd = ''./qq --host 10.0.0.2 node_state_get'' then Hangs
      else Completed 0 (node_state ''1''))"

definition stalled_env :: env where
  "stalled_env = (flat_env 0 [])\<lparr>run_reply := stalled_reply\<rparr>"

text \<open>
  One second after \<open>demo_time\<close>, with a store whose first request fails (the one at
  logical time 0) and whose later requests go through.
\<close>

definition later_time :: datetime where
  "later_time = demo_time\<lparr>dt_second := 57\<rparr>"

definition flaky_env :: env where
  "flaky_env = (flat_env 0 [])\<lparr>http_ok := (\<lambda>t. t \<noteq> 0), now := (\<lambda>t. later_time)\<rparr>"

section \<open>Part II: properties\<close>

subsection \<open>The monad\<close>


lemma io_bind_apply:
  "io_bind m f w =
     (case m w of None \<Rightarrow> None | Some (Inl err, w') \<Rightarrow> Some (Inl err, w') | Some (Inr x, w') \<Rightarrow> f x w')"
  by (simp add: io_bind_def)

lemma io_bind_Inr: "m w = Some (Inr x, w1) \<Longrightarrow> io_bind m f w = f x w1"
  by (simp add: io_bind_def)

lemma io_bind_Inl: "m w = Some (Inl err, w1) \<Longrightarrow> io_bind m f w = Some (Inl err, w1)"
  by (simp add: io_bind_def)

lemma io_bind_None: "m w = None \<Longrightarrow> io_bind m f w = None"
  by (simp add: io_bind_def)

lemma io_then_Inr: "m w = Some (Inr x, w1) \<Longrightarrow> io_then m n w = n w1"
  by (simp add: io_then_def io_bind_def)

lemma io_then_Inl: "m w = Some (Inl err, w1) \<Longrightarrow> io_then m n w = Some (Inl err, w1)"
  by (simp add: io_then_def io_bind_def)

lemma io_bind_returnsE:
  assumes "io_bind m f w = Some (Inr y, w')"
  obtains x w1 where "m w = Some (Inr x, w1)" and "f x w1 = Some (Inr y, w')"
  using assms by (auto simp: io_bind_def split: option.splits sum.splits prod.splits)

lemma io_then_returnsE:
  assumes "io_then m n w = Some (Inr y, w')"
  obtains x w1 where "m w = Some (Inr x, w1)" and "n w1 = Some (Inr y, w')"
  using assms unfolding io_then_def by (rule io_bind_returnsE)

lemma io_bind_SomeE:
  assumes "io_bind m f w = Some (r, w')"
  obtains (raised) err where "m w = Some (Inl err, w')" and "r = Inl err"
        | (returned) x w1 where "m w = Some (Inr x, w1)" and "f x w1 = Some (r, w')"
  using assms by (auto simp: io_bind_def split: option.splits sum.splits prod.splits)

lemma io_then_SomeE:
  assumes "io_then m n w = Some (r, w')"
  obtains (raised) err where "m w = Some (Inl err, w')" and "r = Inl err"
        | (returned) x w1 where "m w = Some (Inr x, w1)" and "n w1 = Some (r, w')"
  using assms unfolding io_then_def by (rule io_bind_SomeE)

lemma io_ret_apply [simp]: "io_ret x w = Some (Inr x, w)"
  by (simp add: io_ret_def)

lemma io_raise_apply [simp]: "io_raise err w = Some (Inl err, w)"
  by (simp add: io_raise_def)

lemma io_lift_apply [simp]: "io_lift r w = Some (r, w)"
  by (simp add: io_lift_def)

lemma io_when_apply:
  "io_when b m w = (if b then m w else Some (Inr (), w))"
  by (simp add: io_when_def)

subsection \<open>The document store: frames and successful requests\<close>

lemma same_records_refl [simp]: "same_records c w w"
  by (simp add: same_records_def)

lemma same_records_trans: "same_records c w w1 \<Longrightarrow> same_records c w1 w2 \<Longrightarrow> same_records c w w2"
  by (simp add: same_records_def)

lemma same_records_docs:
  "same_records c w w' \<Longrightarrow> url \<noteq> status_url c \<Longrightarrow> docs w' url = docs w url"
  unfolding same_records_def by (metis fun_upd_other)

lemma same_records_stored:
  "same_records c w w' \<Longrightarrow> url \<noteq> status_url c \<Longrightarrow> stored w' url key = stored w url key"
  by (simp add: stored_def same_records_docs)

lemma run_command_docs:
  "run_command e cmd timeout check w = Some (r, w') \<Longrightarrow> docs w' = docs w"
  by (auto simp: run_command_def Let_def split: proc_outcome.splits option.splits if_splits)

lemma qq_command_docs: "qq_command e args host w = Some (r, w') \<Longrightarrow> docs w' = docs w"
  unfolding qq_command_def by (rule run_command_docs)

lemma gettoken_apply:
  "gettoken c w = (if config_ok c
                   then Some (Inr (project c @ '':'' @ storage_deployment_name c @ '':''
                                     @ deployment_unique_name c), w)
                   else Some (Inl (ProvisioningError ''Failed to get Firestore token''), w))"
  by (auto simp: gettoken_def get_token_def config_ok_def)

lemma firestore_get_cases:
  assumes "firestore_get e c key dep w = Some (r, w')"
  shows "docs w' = docs w"
    and "\<And>v. r = Inr v \<Longrightarrow> config_ok c \<and> (v = stored w (record_url c (resolve_deployment c dep) key) key \<or> v = ''null'')"
  using assms
  by (auto simp: firestore_get_def io_bind_def gettoken_apply get_document_def
        make_request_get_def stored_def record_url_def resolve_deployment_def Let_def
      split: if_splits option.splits prod.splits)

lemma firestore_get_ok:
  assumes "config_ok c" and "key \<noteq> []" and "http_ok e (clock w)"
  shows "firestore_get e c key dep w =
           Some (Inr (stored w (record_url c (resolve_deployment c dep) key) key), w\<lparr>clock := clock w + 1\<rparr>)"
  using assms
  by (auto simp: firestore_get_def io_bind_def gettoken_apply get_document_def
        make_request_get_def stored_def record_url_def resolve_deployment_def Let_def config_ok_def
      split: if_splits option.splits prod.splits)

lemma firestore_get_total: "\<exists>r w'. firestore_get e c key dep w = Some (r, w')"
  by (auto simp: firestore_get_def io_bind_def gettoken_apply get_document_def
        make_request_get_def Let_def split: if_splits option.splits prod.splits)

lemma update_status_frame:
  assumes "update_status e c status w = Some (r, w')"
  shows "same_records c w w'"
  using assms
  by (auto simp: update_status_def io_bind_def gettoken_apply put_status_with_timestamp_def
        make_request_get_def make_request_patch_def same_records_def status_url_def
        record_url_def Let_def
      split: if_splits option.splits prod.splits)

lemma update_status_returns:
  assumes "update_status e c status w = Some (Inr u, w')"
  shows "config_ok c"
  using assms
  by (auto simp: update_status_def io_bind_def gettoken_apply split: if_splits)

lemma update_status_ok:
  assumes "config_ok c" and "status \<noteq> []" and "http_ok e (clock w)" and "http_ok e (clock w + 1)"
  shows "update_status e c status w =
           Some (Inr (), w\<lparr>clock := clock w + 2,
                          docs := (docs w)(status_url c \<mapsto>
                            (status_fields w (status_url c))
                              (status_field_key (now e (clock w)) \<mapsto> status))\<rparr>)"
  using assms
  by (auto simp: update_status_def io_bind_def gettoken_apply put_status_with_timestamp_def
        make_request_get_def make_request_patch_def status_url_def status_fields_def
        record_url_def Let_def config_ok_def
      split: if_splits option.splits prod.splits)


subsection \<open>Commands\<close>


lemma demo_config_ok: "config_ok demo_config"
  by (simp add: config_ok_def demo_config_def)

lemma run_command_timed:
  "run_command e cmd (Some n) True w =
     (case run_reply e (clock w) cmd of
        Hangs \<Rightarrow> Some (Inl (TimeoutExpired cmd n), w\<lparr>clock := clock w + 1, issued := issued w @ [cmd]\<rparr>)
      | Completed rc out \<Rightarrow>
          if rc \<noteq> 0
          then Some (Inl (ProvisioningError
                            (''Command failed with exit code '' @ py_str rc @ '': '' @ cmd)),
                     w\<lparr>clock := clock w + 1, issued := issued w @ [cmd]\<rparr>)
          else Some (Inr (rc, out), w\<lparr>clock := clock w + 1, issued := issued w @ [cmd]\<rparr>))"
  by (simp add: run_command_def Let_def split: proc_outcome.splits)

lemma qq_command_apply:
  "qq_command e args host w =
     run_command e (''./qq --host '' @ host @ '' '' @ args) (Some 300) True w"
  by (simp add: qq_command_def)


subsection \<open>Evaluating the scenarios\<close>


lemma firestore_put_ok:
  assumes "config_ok c" and "key \<noteq> []" and "http_ok e (clock w)"
  shows "firestore_put e c key v w =
           Some (Inr (), w\<lparr>clock := clock w + 1,
                          docs := (docs w)(record_url c (deployment_unique_name c) key
                                             \<mapsto> [key \<mapsto> v])\<rparr>)"
  using assms
  by (auto simp: firestore_put_def io_bind_def gettoken_apply put_document_def
        make_request_patch_def record_url_def config_ok_def)

lemma flat_env_simps [simp]:
  "run_reply (flat_env rc out) t cmd = Completed rc out"
  "http_ok (flat_env rc out) t"
  "now (flat_env rc out) t = demo_time"
  "network_config_dump (flat_env rc out) t = None"
  by (simp_all add: flat_env_def)

lemma demo_config_simps [simp]:
  "project demo_config = ''p''"
  "storage_deployment_name demo_config = ''db''"
  "deployment_unique_name demo_config = ''dep''"
  "node_ips demo_config = [''10.0.0.1'', ''10.0.0.2'', ''10.0.0.3'']"
  "node1_ip demo_config = ''10.0.0.1''"
  "bucket_names demo_config = [''b1'']"
  "bucket_uris demo_config = [''gs://b1/'']"
  "capacity_limit demo_config = 200"
  "target_node_count demo_config = 3"
  "replace_cluster demo_config = False"
  "existing_deployment_name demo_config = None"
  by (simp_all add: demo_config_def)

lemma status_key_demo: "status_field_key demo_time = ''Jul_17_123456''"
  by (simp add: status_field_key_def demo_time_def two_digits_def digit_char_def)

lemma status_url_demo:
  "status_url demo_config =
     ''https://firestore.googleapis.com/v1/projects/p/databases/db/documents/dep/last-run-status''"
  by (simp add: status_url_def record_url_def doc_url_def base_url_def demo_config_def)

lemmas store_eval =
  update_status_ok firestore_put_ok firestore_get_ok demo_config_ok
  status_fields_def stored_def status_url_def record_url_def doc_url_def base_url_def
  resolve_deployment_def status_key_demo

lemmas command_eval =
  qq_command_apply run_command_timed is_provisioning_error_def py_str_def
  string_of_nat.simps digit_char_def


subsection \<open>The list encoding\<close>

lemma str_split_append_sep:
  "sep \<notin> set x \<Longrightarrow> str_split sep (x @ sep # rest) = x # str_split sep rest"
  by (induction x) auto

lemma str_split_no_sep: "sep \<notin> set x \<Longrightarrow> str_split sep x = [x]"
  by (induction x) auto

lemma str_split_join:
  "L \<noteq> [] \<Longrightarrow> list_all (\<lambda>x. sep \<notin> set x) L \<Longrightarrow> str_split sep (str_join [sep] L) = L"
proof (induction "[sep]" L rule: str_join.induct)
  case 1
  then show ?case by simp
next
  case (2 x)
  then show ?case by (simp add: str_split_no_sep)
next
  case (3 x y ys)
  then show ?case by (simp add: str_split_append_sep)
qed

lemma str_join_eq_sepfree:
  assumes "sep \<notin> set v"
  shows "str_join [sep] L = v \<longleftrightarrow> (L = [] \<and> v = []) \<or> L = [v]"
proof (cases L)
  case Nil
  then show ?thesis by auto
next
  case (Cons x xs)
  show ?thesis
  proof (cases xs)
    case Nil
    with Cons show ?thesis by auto
  next
    case (Cons y ys)
    with \<open>L = x # xs\<close> have "sep \<in> set (str_join [sep] L)" by simp
    with assms Cons \<open>L = x # xs\<close> show ?thesis by auto
  qed
qed

text \<open>
  Claim C5, as amended. The encoding joins the items with commas and the decoding splits
  at commas, strips each item and reads the empty string and \<open>null\<close> as the empty
  list. So \<open>decode (encode L) = L\<close> holds for every list whose items contain no comma
  and have no leading or trailing whitespace, other than the one-item lists holding the
  empty string or \<open>null\<close>; the empty list encodes to the empty string, which decodes
  to the empty list.
\<close>

theorem list_round_trip:
  assumes "list_all (\<lambda>x. CHR '','' \<notin> set x \<and> str_strip x = x) L"
    and "L \<noteq> ['''']" and "L \<noteq> [''null'']"
  shows "deserialize_list_from_firestore (serialize_list_for_firestore L) = L
       \<and> serialize_list_for_firestore [] = ''''
       \<and> deserialize_list_from_firestore '''' = []"
proof (cases "L = []")
  case True
  then show ?thesis
    by (simp add: serialize_list_for_firestore_def deserialize_list_from_firestore_def)
next
  case False
  have nosep: "list_all (\<lambda>x. CHR '','' \<notin> set x) L"
    and stripped: "map str_strip L = L"
    using assms(1) by (simp_all add: list_all_iff map_idI)
  have "str_join '','' L \<noteq> []"
    using str_join_eq_sepfree[of "CHR '',''" "[]" L] False assms(2) by simp
  moreover have "str_join '','' L \<noteq> ''null''"
    using str_join_eq_sepfree[of "CHR '',''" "''null''" L] False assms(3) by simp
  ultimately show ?thesis
    using False str_split_join[OF False nosep] stripped
    by (simp add: serialize_list_for_firestore_def deserialize_list_from_firestore_def)
qed

theorem list_round_trip_witness:
  "deserialize_list_from_firestore
     (serialize_list_for_firestore [''10.0.0.1'', ''10.0.0.2'']) = [''10.0.0.1'', ''10.0.0.2'']
   \<and> serialize_list_for_firestore [''10.0.0.1'', ''10.0.0.2''] = ''10.0.0.1,10.0.0.2''"
proof -
  have h: "list_all (\<lambda>x. CHR '','' \<notin> set x \<and> str_strip x = x) [''10.0.0.1'', ''10.0.0.2'']"
    by (simp add: str_strip_def py_isspace_def)
  show ?thesis
    using list_round_trip[OF h] by (simp add: serialize_list_for_firestore_def)
qed

text \<open>
  The round trip as the claim states it, for every list of strings, fails: an item with
  a comma comes back as two items, an item with leading whitespace comes back stripped,
  and the one-item lists holding the empty string or \<open>null\<close> come back empty.
\<close>

theorem list_round_trip_counterexample:
  "deserialize_list_from_firestore (serialize_list_for_firestore [''a,b'']) \<noteq> [''a,b'']
   \<and> deserialize_list_from_firestore (serialize_list_for_firestore [''a'', '' b''])
       \<noteq> [''a'', '' b'']
   \<and> deserialize_list_from_firestore (serialize_list_for_firestore ['''']) \<noteq> ['''']
   \<and> deserialize_list_from_firestore (serialize_list_for_firestore [''null'']) \<noteq> [''null'']"
  by (simp add: deserialize_list_from_firestore_def serialize_list_for_firestore_def
        str_strip_def py_isspace_def)

subsection \<open>Version comparison\<close>

lemmas version_eval =
  vercomp_def version_field_def str_isdigit_def py_isdigit_char_def ascii_digit_def
  py_int_def int_isspace_def int_max_str_digits_def str_strip_def py_isspace_def
  nat_of_digits_def digit_value_def Let_def

lemma ascii_digit_not_space: "ascii_digit c \<Longrightarrow> \<not> int_isspace c"
  by (auto simp: ascii_digit_def int_isspace_def)

lemma int_body_ok_digits: "p \<noteq> [] \<Longrightarrow> list_all ascii_digit p \<Longrightarrow> int_body_ok p"
proof (induction p rule: int_body_ok.induct)
  case 1
  then show ?case by simp
next
  case (2 c)
  then show ?case by simp
next
  case (3 c d cs)
  then have "d \<noteq> CHR ''_''" by (auto simp: ascii_digit_def)
  with 3 show ?case by simp
qed

lemma digits_no_underscore: "list_all ascii_digit p \<Longrightarrow> filter (\<lambda>c. c \<noteq> CHR ''_'') p = p"
  by (induction p) (auto simp: ascii_digit_def)

lemma py_int_decimal:
  assumes "decimal_field p"
  shows "py_int p = Inr (int (nat_of_digits p))"
proof -
  from assms have ne: "p \<noteq> []" and dig: "list_all ascii_digit p"
    and len: "length p \<le> int_max_str_digits"
    by (simp_all add: decimal_field_def)
  from ne dig have "ascii_digit (hd p)" and "ascii_digit (last p)"
    by (auto simp: list_all_iff)
  then have h: "\<not> int_isspace (hd p)" and l: "\<not> int_isspace (hd (rev p))"
    and s: "hd p \<noteq> CHR ''-''" "hd p \<noteq> CHR ''+''"
    using ne by (auto simp: ascii_digit_not_space hd_rev ascii_digit_def)
  have a: "dropWhile int_isspace p = p"
    using h ne by (cases p) simp_all
  have b: "dropWhile int_isspace (rev p) = rev p"
    using l ne by (cases "rev p") simp_all
  have "rev (dropWhile int_isspace (rev (dropWhile int_isspace p))) = p"
    by (simp add: a b)
  then show ?thesis
    using s len int_body_ok_digits[OF ne dig] digits_no_underscore[OF dig]
    by (simp add: py_int_def Let_def)
qed

lemma version_field_decimal:
  "decimal_field p \<Longrightarrow> version_field p = Inr (int (nat_of_digits p))"
  by (auto simp: version_field_def py_int_decimal str_isdigit_def decimal_field_def
        py_isdigit_char_def list_all_iff)

lemma version_field_zero: "version_field ''0'' = Inr 0"
  by (simp add: version_eval)

lemma vercomp_fields_zeros:
  "vercomp_fields (replicate k ''0'') (replicate k ''0'') = Inr 0"
  by (induction k) (simp_all add: version_field_zero)

lemma vercomp_fields_left_padding:
  "list_all decimal_field qs \<Longrightarrow>
   vercomp_fields (replicate (length qs) ''0'') qs
     = Inr (spec_version_compare [] (map nat_of_digits qs))"
  by (induction qs) (simp_all add: version_field_zero version_field_decimal)

lemma vercomp_fields_right_padding:
  "list_all decimal_field ps \<Longrightarrow>
   vercomp_fields ps (replicate (length ps) ''0'')
     = Inr (spec_version_compare (map nat_of_digits ps) [])"
  by (induction ps) (simp_all add: version_field_zero version_field_decimal)

lemma vercomp_fields_padded:
  "list_all decimal_field ps \<Longrightarrow> list_all decimal_field qs \<Longrightarrow>
   vercomp_fields
     (ps @ replicate (max (length ps) (length qs) - length ps) ''0'')
     (qs @ replicate (max (length ps) (length qs) - length qs) ''0'')
     = Inr (spec_version_compare (map nat_of_digits ps) (map nat_of_digits qs))"
proof (induction ps arbitrary: qs)
  case Nil
  then show ?case using vercomp_fields_left_padding[of qs] by simp
next
  case (Cons p ps)
  show ?case
  proof (cases qs)
    case Nil
    then show ?thesis using vercomp_fields_right_padding[of "p # ps"] Cons.prems by simp
  next
    case (Cons q qs')
    with Cons.prems Cons.IH[of qs'] show ?thesis
      by (simp add: version_field_decimal)
  qed
qed

lemma spec_version_compare_same: "spec_version_compare ms ms = 0"
  by (induction ms) simp_all

lemma ascii_digit_period: "\<not> ascii_digit CHR ''.''"
  by (simp add: ascii_digit_def)

lemma decimal_field_no_period: "decimal_field p \<Longrightarrow> CHR ''.'' \<notin> set p"
  using ascii_digit_period by (auto simp: decimal_field_def list_all_iff)

lemma vercomp_same: "vercomp v v = Inr 0"
  by (simp add: vercomp_def)

lemma vercomp_differ:
  "v1 \<noteq> v2 \<Longrightarrow>
   vercomp v1 v2 =
     vercomp_fields
       (str_split CHR ''.'' v1
          @ replicate (max (length (str_split CHR ''.'' v1)) (length (str_split CHR ''.'' v2))
                         - length (str_split CHR ''.'' v1)) ''0'')
       (str_split CHR ''.'' v2
          @ replicate (max (length (str_split CHR ''.'' v1)) (length (str_split CHR ''.'' v2))
                         - length (str_split CHR ''.'' v2)) ''0'')"
  by (simp add: vercomp_def Let_def)

lemma vercomp_decimal_fields:
  assumes ps: "ps \<noteq> []" "list_all decimal_field ps"
    and qs: "qs \<noteq> []" "list_all decimal_field qs"
  shows "vercomp (str_join ''.'' ps) (str_join ''.'' qs)
           = Inr (spec_version_compare (map nat_of_digits ps) (map nat_of_digits qs))"
proof -
  have sp: "str_split CHR ''.'' (str_join ''.'' ps) = ps"
    using ps by (intro str_split_join) (auto simp: list_all_iff decimal_field_no_period)
  have sq: "str_split CHR ''.'' (str_join ''.'' qs) = qs"
    using qs by (intro str_split_join) (auto simp: list_all_iff decimal_field_no_period)
  show ?thesis
  proof (cases "str_join ''.'' ps = str_join ''.'' qs")
    case True
    then have "str_split CHR ''.'' (str_join ''.'' ps) = str_split CHR ''.'' (str_join ''.'' qs)"
      by (rule arg_cong)
    then have same: "ps = qs" by (simp only: sp sq)
    show ?thesis
      unfolding same by (simp only: vercomp_same spec_version_compare_same)
  next
    case False
    show ?thesis
      by (simp only: vercomp_differ[OF False] sp sq vercomp_fields_padded[OF ps(2) qs(2)])
  qed
qed

text \<open>
  Claim C6. \<open>vercomp\<close> returns 0 for equal versions, 1 when the first is lower and 2
  when it is higher, and it compares the fields as numbers, padding the shorter version
  with zero fields: for all versions written as decimal fields joined by periods, its
  result is the comparison of the lists of field values, number by number from the left,
  a lacking field counting as zero. In particular 7.6.0 equals 7.6.0, 7.5.9 is below
  7.6.0, and 7.10 is above 7.6.0 (field 10 against field 6), where a comparison of the
  texts would put 7.10 below; by the padding 7.6 equals 7.6.0, 7 is below 7.6.0 and
  7.6.1 is above 7.6; the third field decides between 7.6.0 and 7.6.1.
\<close>

theorem vercomp_numeric_fields:
  "(ps \<noteq> [] \<and> list_all decimal_field ps \<and> qs \<noteq> [] \<and> list_all decimal_field qs \<longrightarrow>
      vercomp (str_join ''.'' ps) (str_join ''.'' qs)
        = Inr (spec_version_compare (map nat_of_digits ps) (map nat_of_digits qs)))
   \<and> vercomp ''7.6.0'' ''7.6.0'' = Inr 0
   \<and> vercomp ''7.5.9'' ''7.6.0'' = Inr 1
   \<and> vercomp ''7.10'' ''7.6.0'' = Inr 2
   \<and> vercomp ''7.6'' ''7.6.0'' = Inr 0
   \<and> vercomp ''7'' ''7.6.0'' = Inr 1
   \<and> vercomp ''7.6.1'' ''7.6'' = Inr 2
   \<and> vercomp ''7.6.0'' ''7.6.1'' = Inr 1"
proof -
  have "vercomp ''7.6.0'' ''7.6.0'' = Inr 0" by (simp add: version_eval)
  moreover have "vercomp ''7.5.9'' ''7.6.0'' = Inr 1" by (simp add: version_eval)
  moreover have "vercomp ''7.10'' ''7.6.0'' = Inr 2" by (simp add: version_eval)
  moreover have "vercomp ''7.6'' ''7.6.0'' = Inr 0" by (simp add: version_eval)
  moreover have "vercomp ''7'' ''7.6.0'' = Inr 1" by (simp add: version_eval)
  moreover have "vercomp ''7.6.1'' ''7.6'' = Inr 2" by (simp add: version_eval)
  moreover have "vercomp ''7.6.0'' ''7.6.1'' = Inr 1" by (simp add: version_eval)
  ultimately show ?thesis using vercomp_decimal_fields[of ps qs] by simp
qed

text \<open>The comparison at 7.10 against 7.6.0 and at 7 against 7.6.0, through the
  general statement.\<close>

theorem vercomp_numeric_fields_witness:
  "vercomp ''7.10'' ''7.6.0'' = Inr (spec_version_compare [7, 10] [7, 6, 0])
   \<and> spec_version_compare [7, 10] [7, 6, 0] = 2
   \<and> vercomp ''7'' ''7.6.0'' = Inr (spec_version_compare [7] [7, 6, 0])
   \<and> spec_version_compare [7] [7, 6, 0] = 1"
proof -
  have d: "list_all decimal_field [''7'', ''10'']" "list_all decimal_field [''7'', ''6'', ''0'']"
    "list_all decimal_field [''7'']"
    by (simp_all add: decimal_field_def ascii_digit_def int_max_str_digits_def)
  have n: "map nat_of_digits [''7'', ''10''] = [7, 10]"
    "map nat_of_digits [''7'', ''6'', ''0''] = [7, 6, 0]"
    "map nat_of_digits [''7''] = [7]"
    by (simp_all add: nat_of_digits_def digit_value_def)
  from vercomp_numeric_fields[of "[''7'', ''10'']" "[''7'', ''6'', ''0'']"]
       vercomp_numeric_fields[of "[''7'']" "[''7'', ''6'', ''0'']"] d n
  show ?thesis by simp
qed

subsection \<open>The status log\<close>

text \<open>
  What a status update does when both of its requests go through and the document
  exists: it sets the field keyed by the month, day and time of the moment of the call to
  the status and writes the other fields back as it read them.
\<close>

lemma status_update_keeps_other_fields:
  assumes "proj \<noteq> []" and "database \<noteq> []" and "collection \<noteq> []" and "token \<noteq> []"
    and "status \<noteq> []"
    and "http_ok e (clock w)" and "http_ok e (clock w + 1)"
    and "docs w (doc_url proj database collection ''last-run-status'') = Some before"
  shows "put_status_with_timestamp e proj database collection token status w =
           (True, w\<lparr>clock := clock w + 2,
                     docs := (docs w)(doc_url proj database collection ''last-run-status''
                                        \<mapsto> before(status_field_key (now e (clock w))
                                                      \<mapsto> status))\<rparr>)"
  using assms
  by (simp add: put_status_with_timestamp_def make_request_get_def make_request_patch_def
        Let_def)

lemma flaky_env_simps [simp]:
  "http_ok flaky_env t = (t \<noteq> 0)"
  "now flaky_env t = later_time"
  by (simp_all add: flaky_env_def)

lemma status_key_later: "status_field_key later_time = ''Jul_17_123457''"
  by (simp add: status_field_key_def later_time_def demo_time_def two_digits_def
        digit_char_def)

text \<open>
  Claim C8 does not hold of the code. The update reads the document in order to keep its
  fields (the source says: get the existing document to preserve other fields), but
  \<open>_make_request\<close> answers \<open>None\<close> both for a document that does not exist and for a
  read that failed, and the update takes either as an empty log. Here the log holds the
  field \<open>Jul_17_123456\<close> with value \<open>A\<close>; an update with status \<open>B\<close> one second
  later whose read fails and whose write goes through reports success and leaves a log
  of the placeholder field and the new field only: the earlier field is dropped.
\<close>

theorem status_update_drops_log_after_failed_read:
  "stored logged_world (status_url demo_config) ''Jul_17_123456'' = ''A''
   \<and> put_status_with_timestamp flaky_env ''p'' ''db'' ''dep'' ''p:db:dep'' ''B'' logged_world
       = (True, logged_world\<lparr>clock := 2,
                  docs := [status_url demo_config \<mapsto>
                             [''last-run-status'' \<mapsto> ''null'', ''Jul_17_123457'' \<mapsto> ''B'']]\<rparr>)
   \<and> stored (snd (put_status_with_timestamp flaky_env ''p'' ''db'' ''dep'' ''p:db:dep'' ''B''
                    logged_world)) (status_url demo_config) ''Jul_17_123456'' = ''null''"
  by (simp add: put_status_with_timestamp_def make_request_get_def make_request_patch_def
        Let_def stored_def logged_world_def empty_world_def status_key_later
        status_url_demo doc_url_def base_url_def)

text \<open>
  The label has a resolution of one second and carries no year. An update made in the
  second of an earlier one therefore does not add a field either: it writes over the
  field of the earlier update. Here the log holds \<open>Jul_17_123456\<close> with value
  \<open>A\<close>, and an update at 12:34:56 on 17 July with status \<open>B\<close> leaves the log with the
  same field names and the value \<open>B\<close> under that label.
\<close>

lemma status_update_overwrites_same_label:
  "stored logged_world (status_url demo_config) ''Jul_17_123456'' = ''A''
   \<and> fst (put_status_with_timestamp (flat_env 0 []) ''p'' ''db'' ''dep'' ''p:db:dep'' ''B''
            logged_world) = True
   \<and> stored (snd (put_status_with_timestamp (flat_env 0 []) ''p'' ''db'' ''dep'' ''p:db:dep'' ''B''
                    logged_world)) (status_url demo_config) ''Jul_17_123456'' = ''B''
   \<and> dom (status_fields (snd (put_status_with_timestamp (flat_env 0 []) ''p'' ''db'' ''dep''
                                 ''p:db:dep'' ''B'' logged_world)) (status_url demo_config))
       = dom (status_fields logged_world (status_url demo_config))"
  by (simp add: put_status_with_timestamp_def make_request_get_def make_request_patch_def
        status_fields_def Let_def stored_def logged_world_def empty_world_def flat_env_def
        status_key_demo status_url_demo doc_url_def base_url_def)




subsection \<open>The quorum survey\<close>

lemma survey_probe_sum:
  assumes "survey_probe e ips o_count i_count w = Some (Inr (out_quorum, in_quorum), w')"
  shows "out_quorum + in_quorum = o_count + i_count + int (length ips)
         \<and> o_count \<le> out_quorum \<and> i_count \<le> in_quorum"
  using assms
proof (induction ips arbitrary: o_count i_count w)
  case Nil
  then show ?case by simp
next
  case (Cons ip ips)
  from Cons.prems show ?case
    by (auto simp: qq_command_apply run_command_timed
        split: proc_outcome.splits if_splits option.splits sum.splits prod.splits
        dest!: Cons.IH)
qed

lemma survey_probe_total:
  assumes "\<forall>t cmd. run_reply e t cmd \<noteq> Hangs"
  shows "\<exists>out_quorum in_quorum w'.
           survey_probe e ips o_count i_count w = Some (Inr (out_quorum, in_quorum), w')"
proof (induction ips arbitrary: o_count i_count w)
  case Nil
  then show ?case by simp
next
  case (Cons ip ips)
  obtain rc out where reply: "run_reply e (clock w) (''./qq --host '' @ ip @ '' node_state_get'') = Completed rc out"
    using assms by (metis proc_outcome.exhaust)
  show ?case
    using reply Cons.IH
    by (simp add: qq_command_apply run_command_timed is_provisioning_error_def)
qed

text \<open>
  What the probing loop tolerates. A probe whose command exits with a non-zero code (a
  \<open>ProvisioningError\<close>, which the loop catches) or whose output lacks \<open>ACTIVE\<close>
  counts its node as out of quorum, and the loop goes on with the next node. When no
  probe runs into the subprocess timeout the loop returns counts that add up to the
  number of nodes, and so do the counts of every survey that returns.
\<close>

lemma survey_counts_tolerated_failures:
  "(\<forall>out_quorum in_quorum version w'.
      survey_cluster_state e c w = Some (Inr (out_quorum, in_quorum, version), w')
      \<longrightarrow> out_quorum + in_quorum = int (length (node_ips c))
          \<and> 0 \<le> out_quorum \<and> 0 \<le> in_quorum)
   \<and> ((\<forall>t cmd. run_reply e t cmd \<noteq> Hangs)
      \<longrightarrow> (\<exists>out_quorum in_quorum w'.
             survey_probe e ips 0 0 w = Some (Inr (out_quorum, in_quorum), w')
             \<and> out_quorum + in_quorum = int (length ips)))
   \<and> (\<forall>rc out.
        run_reply e (clock w) (''./qq --host '' @ ip @ '' node_state_get'') = Completed rc out
        \<and> (rc \<noteq> 0 \<or> \<not> str_contains ''ACTIVE'' out)
        \<longrightarrow> survey_probe e (ip # rest) o_count i_count w =
              survey_probe e rest (o_count + 1) i_count
                (w\<lparr>clock := clock w + 1,
                   issued := issued w @ [''./qq --host '' @ ip @ '' node_state_get'']\<rparr>))"
proof (intro conjI allI impI)
  fix out_quorum in_quorum version w'
  assume "survey_cluster_state e c w = Some (Inr (out_quorum, in_quorum, version), w')"
  then obtain w1 w2 where
    "survey_probe e (node_ips c) 0 0 w1 = Some (Inr (out_quorum, in_quorum), w2)"
    unfolding survey_cluster_state_def
    by (auto elim!: io_then_returnsE io_bind_returnsE split: prod.splits)
  from survey_probe_sum[OF this]
  show "out_quorum + in_quorum = int (length (node_ips c))" "0 \<le> out_quorum" "0 \<le> in_quorum"
    by simp_all
next
  assume "\<forall>t cmd. run_reply e t cmd \<noteq> Hangs"
  from survey_probe_total[OF this, of ips 0 0 w] obtain out_quorum in_quorum w' where
    r: "survey_probe e ips 0 0 w = Some (Inr (out_quorum, in_quorum), w')" by blast
  with survey_probe_sum[OF r]
  show "\<exists>out_quorum in_quorum w'.
          survey_probe e ips 0 0 w = Some (Inr (out_quorum, in_quorum), w')
          \<and> out_quorum + in_quorum = int (length ips)"
    by auto
next
  fix rc out
  assume "run_reply e (clock w) (''./qq --host '' @ ip @ '' node_state_get'') = Completed rc out
          \<and> (rc \<noteq> 0 \<or> \<not> str_contains ''ACTIVE'' out)"
  then show "survey_probe e (ip # rest) o_count i_count w =
              survey_probe e rest (o_count + 1) i_count
                (w\<lparr>clock := clock w + 1,
                   issued := issued w @ [''./qq --host '' @ ip @ '' node_state_get'']\<rparr>)"
    by (auto simp: qq_command_apply run_command_timed is_provisioning_error_def)
qed

lemma survey_probe_timeout:
  assumes "run_reply e (clock w) (''./qq --host '' @ ip @ '' node_state_get'') = Hangs"
  shows "survey_probe e (ip # rest) o_count i_count w =
           Some (Inl (TimeoutExpired (''./qq --host '' @ ip @ '' node_state_get'') 300),
                 w\<lparr>clock := clock w + 1,
                   issued := issued w @ [''./qq --host '' @ ip @ '' node_state_get'']\<rparr>)"
  using assms by (simp add: qq_command_apply run_command_timed is_provisioning_error_def)

lemma stalled_env_simps [simp]:
  "run_reply stalled_env = stalled_reply"
  "http_ok stalled_env t"
  "now stalled_env t = demo_time"
  by (simp_all add: stalled_env_def flat_env_def)

text \<open>
  Claim C9 does not hold of the code. The survey is meant to count a node whose probe
  fails as out of quorum and to go on: the loop wraps each probe in
  \<open>try\<close>/\<open>except ProvisioningError\<close>. But a probe that does not finish within the 300
  seconds \<open>qq_command\<close> allows raises \<open>subprocess.TimeoutExpired\<close>, which
  \<open>run_command\<close> does not turn into a \<open>ProvisioningError\<close> and the loop does not
  catch. With three configured nodes of which the second does not answer, the first node
  is probed, the probe of the second raises out of the survey, and the third node is never
  probed: the survey returns no counts.
\<close>

theorem survey_aborts_on_probe_timeout:
  "map_option (\<lambda>(result, w). (result, issued w))
     (survey_cluster_state stalled_env demo_config empty_world)
     = Some (Inl (TimeoutExpired ''./qq --host 10.0.0.2 node_state_get'' 300),
             [''./qq --host 10.0.0.1 node_state_get'', ''./qq --host 10.0.0.2 node_state_get''])"
  by (simp add: survey_cluster_state_def io_then_def io_bind_def empty_world_def
        stalled_reply_def node_state_def store_eval command_eval)

text \<open>
  Apart from the probes, the survey can raise after the loop, from the version query on
  the first node: when the commands against the nodes exit with code 1, the three probes
  are counted as out of quorum and the version query then raises.
\<close>

lemma survey_version_query_raises:
  "map_option fst (survey_cluster_state (flat_env 1 []) demo_config empty_world)
     = Some (Inl (ProvisioningError
                    ''Command failed with exit code 1: ./qq --host 10.0.0.1 version''))"
  by (simp add: survey_cluster_state_def io_then_def io_bind_def io_when_def
        get_qfsd_version_def empty_world_def store_eval command_eval)



subsection \<open>The planner\<close>

lemma record_url_not_status:
  assumes "key \<in> {''node-ips'', ''installed-version'', ''bucket-names'', ''bucket-uris'',
                   ''soft-capacity-limit''}"
  shows "record_url c deployment key \<noteq> status_url c"
proof
  assume "record_url c deployment key = status_url c"
  then have "rev (record_url c deployment key) = rev (status_url c)" by simp
  with assms show False
    by (auto simp: record_url_def status_url_def doc_url_def)
qed

lemma keeps_recordsI:
  "(\<And>w r w'. m w = Some (r, w') \<Longrightarrow> same_records c w w') \<Longrightarrow> keeps_records c m"
  by (simp add: keeps_records_def)

lemma keeps_recordsD: "keeps_records c m \<Longrightarrow> m w = Some (r, w') \<Longrightarrow> same_records c w w'"
  by (auto simp: keeps_records_def)

lemma keeps_records_docs:
  "(\<And>w r w'. m w = Some (r, w') \<Longrightarrow> docs w' = docs w) \<Longrightarrow> keeps_records c m"
  by (simp add: keeps_records_def same_records_def)

lemma keeps_records_ret [intro!, simp]: "keeps_records c (io_ret x)"
  by (simp add: keeps_records_def)

lemma keeps_records_raise [intro!, simp]: "keeps_records c (io_raise err)"
  by (simp add: keeps_records_def)

lemma keeps_records_lift [intro!, simp]: "keeps_records c (io_lift r)"
  by (simp add: keeps_records_def)

lemma keeps_records_bind [intro!]:
  assumes "keeps_records c m" and "\<And>x. keeps_records c (f x)"
  shows "keeps_records c (io_bind m f)"
proof (rule keeps_recordsI)
  fix w r w'
  assume "io_bind m f w = Some (r, w')"
  then show "same_records c w w'"
  proof (cases rule: io_bind_SomeE)
    case (raised err)
    with assms(1) show ?thesis by (auto dest: keeps_recordsD)
  next
    case (returned x w1)
    with assms show ?thesis by (blast dest: keeps_recordsD intro: same_records_trans)
  qed
qed

lemma keeps_records_then [intro!]:
  "keeps_records c m \<Longrightarrow> keeps_records c n \<Longrightarrow> keeps_records c (io_then m n)"
  unfolding io_then_def by (rule keeps_records_bind)

lemma keeps_records_when [intro!]:
  "keeps_records c m \<Longrightarrow> keeps_records c (io_when b m)"
  by (simp add: io_when_def)

lemma keeps_records_run_command [intro!, simp]: "keeps_records c (run_command e cmd timeout check)"
  by (rule keeps_records_docs) (rule run_command_docs)

lemma keeps_records_qq_command [intro!, simp]: "keeps_records c (qq_command e args host)"
  by (simp add: qq_command_def)

lemma keeps_records_update_status [intro!, simp]: "keeps_records c (update_status e c status)"
  by (rule keeps_recordsI) (rule update_status_frame)

lemma keeps_records_firestore_get [intro!, simp]: "keeps_records c (firestore_get e c key dep)"
  by (rule keeps_records_docs) (rule firestore_get_cases(1))

lemma keeps_records_firestore_get_list [intro!, simp]:
  "keeps_records c (firestore_get_list e c key dep)"
  unfolding firestore_get_list_def by (intro keeps_records_bind) simp_all

lemma keeps_records_parse_quorum_details [intro!, simp]:
  "keeps_records c (parse_quorum_details e host)"
  unfolding parse_quorum_details_def Let_def by (intro keeps_records_bind) simp_all

lemma keeps_records_get_qfsd_version [intro!, simp]: "keeps_records c (get_qfsd_version e ip)"
  unfolding get_qfsd_version_def
  by (intro keeps_records_bind) (simp_all split: option.splits)

lemma keeps_records_node_changes: "keeps_records c (determine_node_changes e c)"
  unfolding determine_node_changes_def
  by (auto split: list.splits)

lemma keeps_records_node_operations:
  "keeps_records c (determine_node_operations e c out_quorum in_quorum password)"
  unfolding determine_node_operations_def
  by (auto simp: keeps_records_node_changes split: prod.splits)


lemma node_operations_flags:
  assumes "determine_node_operations e c out_quorum in_quorum password w = Some (Inr fl, w1)"
  shows "\<not> add_buckets fl \<and> \<not> increase_limit fl \<and> config_ok c
         \<and> (if out_quorum = int (length (node_ips c)) \<and> in_quorum = 0
            then fl = no_operations\<lparr>new_cluster := True\<rparr>
            else \<not> new_cluster fl)"
  using assms unfolding determine_node_operations_def determine_node_changes_def
  by (auto simp: no_operations_def
      elim!: io_then_returnsE io_bind_returnsE
      dest: update_status_returns
      split: if_splits prod.splits list.splits)

lemma bucket_operations_flags:
  assumes "determine_bucket_operations e c fl0 w1 = Some (Inr fl, w')"
  shows "new_cluster fl = new_cluster fl0 \<and> add_nodes fl = add_nodes fl0
         \<and> remove_nodes fl = remove_nodes fl0
         \<and> (new_cluster fl0 \<and> \<not> replace_cluster c \<longrightarrow> fl = fl0)
         \<and> (\<not> add_buckets fl0 \<and> \<not> increase_limit fl0 \<longrightarrow>
              \<not> (add_buckets fl \<and> increase_limit fl)
              \<and> (increase_limit fl \<longrightarrow>
                   (\<exists>old_limit.
                      py_int (stored w1 (record_url c (diff_deployment c) ''soft-capacity-limit'')
                                ''soft-capacity-limit'') = Inr old_limit
                      \<and> old_limit < capacity_limit c)))"
proof -
  let ?dep = "if replace_cluster c then existing_deployment_name c else None"
  from assms obtain old_bucket_names w2 old_bucket_uris w3 old_limit_str w4 where
    r1: "firestore_get_list e c ''bucket-names'' ?dep w1 = Some (Inr old_bucket_names, w2)"
    and r2: "firestore_get_list e c ''bucket-uris'' ?dep w2 = Some (Inr old_bucket_uris, w3)"
    and r3: "firestore_get e c ''soft-capacity-limit'' ?dep w3 = Some (Inr old_limit_str, w4)"
    and rest: "(if \<not> new_cluster fl0 \<or> replace_cluster c then
          let new_bucket_names = not_in (bucket_names c) old_bucket_names;
              new_bucket_uris = not_in (bucket_uris c) old_bucket_uris;
              flags1 = (if new_bucket_names \<noteq> [] \<and> new_bucket_uris \<noteq> []
                        then fl0\<lparr>add_buckets := True\<rparr> else fl0)
          in if old_limit_str \<noteq> ''null'' then
               io_bind (io_lift (py_int old_limit_str)) (\<lambda>old_limit.
                 io_ret (if capacity_limit c > old_limit \<and> \<not> add_buckets flags1
                         then flags1\<lparr>increase_limit := True\<rparr> else flags1))
             else io_ret flags1
        else io_ret fl0) w4 = Some (Inr fl, w')"
    unfolding determine_bucket_operations_def Let_def
    by (elim io_bind_returnsE) blast
  have d2: "docs w2 = docs w1" and d3: "docs w3 = docs w2"
    using r1 r2 keeps_records_firestore_get_list
    by (auto simp: firestore_get_list_def elim!: io_bind_returnsE dest: firestore_get_cases(1))
  from firestore_get_cases(2)[OF r3 refl]
  have lim: "old_limit_str = stored w3 (record_url c (resolve_deployment c ?dep)
                                ''soft-capacity-limit'') ''soft-capacity-limit''
             \<or> old_limit_str = ''null''" by simp
  have st: "stored w3 (record_url c (resolve_deployment c ?dep) ''soft-capacity-limit'')
              ''soft-capacity-limit''
            = stored w1 (record_url c (diff_deployment c) ''soft-capacity-limit'')
                ''soft-capacity-limit''"
    by (simp add: stored_def d2 d3 diff_deployment_def)
  from rest lim st show ?thesis
    by (auto simp: Let_def io_bind_def split: if_splits sum.splits)
qed

lemma replace_config_simps [simp]:
  "project replace_config = ''p''"
  "storage_deployment_name replace_config = ''db''"
  "deployment_unique_name replace_config = ''dep''"
  "node_ips replace_config = [''10.0.0.1'', ''10.0.0.2'', ''10.0.0.3'']"
  "bucket_names replace_config = [''b1'']"
  "bucket_uris replace_config = [''gs://b1/'']"
  "capacity_limit replace_config = 200"
  "replace_cluster replace_config = True"
  "existing_deployment_name replace_config = Some ''old''"
  "project replace_config_more_buckets = ''p''"
  "storage_deployment_name replace_config_more_buckets = ''db''"
  "deployment_unique_name replace_config_more_buckets = ''dep''"
  "node_ips replace_config_more_buckets = [''10.0.0.1'', ''10.0.0.2'', ''10.0.0.3'']"
  "bucket_names replace_config_more_buckets = [''b1'', ''b2'']"
  "bucket_uris replace_config_more_buckets = [''gs://b1/'', ''gs://b2/'']"
  "capacity_limit replace_config_more_buckets = 200"
  "replace_cluster replace_config_more_buckets = True"
  "existing_deployment_name replace_config_more_buckets = Some ''old''"
  by (simp_all add: replace_config_def replace_config_more_buckets_def)

lemma replace_config_ok: "config_ok replace_config" "config_ok replace_config_more_buckets"
  by (simp_all add: config_ok_def)

lemmas planner_eval =
  determine_cluster_operations_def determine_node_operations_def determine_node_changes_def
  determine_bucket_operations_def firestore_get_list_def io_then_def io_bind_def
  no_operations_def not_in_def deserialize_list_from_firestore_def str_strip_def
  py_isspace_def py_int_def int_isspace_def int_max_str_digits_def nat_of_digits_def
  digit_value_def ascii_digit_def Let_def

text \<open>
  Claim C1, as amended. When the survey reports every configured node out of quorum and
  none in quorum, every flag set the planner returns has \<open>new_cluster\<close> set and
  \<open>add_nodes\<close> and \<open>remove_nodes\<close> clear. When the configuration is not a
  replacement, \<open>add_buckets\<close> and \<open>increase_limit\<close> are clear as well, so exactly
  \<open>new_cluster\<close> is set; and the planner does return that flag set whenever the token
  can be formed and the store answers. On a replacement the planner goes on to diff
  buckets and capacity against the record of the existing deployment, and may set
  \<open>add_buckets\<close> or \<open>increase_limit\<close> too.
\<close>

theorem all_out_of_quorum_plans_new_cluster:
  assumes "out_quorum = int (length (node_ips c))" and "in_quorum = 0"
  shows "(\<forall>fl w'. determine_cluster_operations e c out_quorum in_quorum password w
                     = Some (Inr fl, w')
            \<longrightarrow> new_cluster fl \<and> \<not> add_nodes fl \<and> \<not> remove_nodes fl
                \<and> (\<not> replace_cluster c \<longrightarrow> \<not> add_buckets fl \<and> \<not> increase_limit fl))
       \<and> (\<not> replace_cluster c \<and> config_ok c \<and> (\<forall>t. http_ok e t)
            \<longrightarrow> (\<exists>w'. determine_cluster_operations e c out_quorum in_quorum password w
                        = Some (Inr (no_operations\<lparr>new_cluster := True\<rparr>), w')))"
proof (intro conjI allI impI)
  fix fl w'
  assume run: "determine_cluster_operations e c out_quorum in_quorum password w = Some (Inr fl, w')"
  then obtain fl0 w1 where
    n: "determine_node_operations e c out_quorum in_quorum password w = Some (Inr fl0, w1)"
    and b: "determine_bucket_operations e c fl0 w1 = Some (Inr fl, w')"
    unfolding determine_cluster_operations_def by (rule io_bind_returnsE)
  from node_operations_flags[OF n] assms
  have fl0: "fl0 = no_operations\<lparr>new_cluster := True\<rparr>" by simp
  from bucket_operations_flags[OF b] fl0
  show "new_cluster fl" "\<not> add_nodes fl" "\<not> remove_nodes fl"
    by (simp_all add: no_operations_def)
  show "\<not> add_buckets fl" "\<not> increase_limit fl" if "\<not> replace_cluster c"
    using bucket_operations_flags[OF b] fl0 that by (simp_all add: no_operations_def)
next
  assume h: "\<not> replace_cluster c \<and> config_ok c \<and> (\<forall>t. http_ok e t)"
  then show "\<exists>w'. determine_cluster_operations e c out_quorum in_quorum password w
                    = Some (Inr (no_operations\<lparr>new_cluster := True\<rparr>), w')"
    using assms
    by (simp add: determine_cluster_operations_def determine_node_operations_def
          determine_bucket_operations_def firestore_get_list_def io_then_def io_bind_def
          update_status_ok firestore_get_ok no_operations_def)
qed

theorem all_out_of_quorum_plans_new_cluster_witness:
  "map_option fst (determine_cluster_operations (flat_env 0 []) demo_config 3 0 ''pw''
                     empty_world)
     = Some (Inr \<lparr>new_cluster = True, add_nodes = False, remove_nodes = False,
                  add_buckets = False, increase_limit = False\<rparr>)"
proof -
  have h1: "(3::int) = int (length (node_ips demo_config))" by simp
  have h2: "\<not> replace_cluster demo_config \<and> config_ok demo_config
              \<and> (\<forall>t. http_ok (flat_env 0 []) t)"
    by (simp add: demo_config_ok)
  from all_out_of_quorum_plans_new_cluster[OF h1 refl, of "flat_env 0 []" "''pw''" empty_world]
    h2
  obtain w' where
    "determine_cluster_operations (flat_env 0 []) demo_config 3 0 ''pw'' empty_world
       = Some (Inr (no_operations\<lparr>new_cluster := True\<rparr>), w')" by blast
  then show ?thesis by (simp add: no_operations_def)
qed

text \<open>
  The claim as stated, with every other flag clear, fails on a replacement: the target
  names a bucket \<open>b2\<close> that the record of the existing deployment does not have, and
  the planner returns \<open>new_cluster\<close> together with \<open>add_buckets\<close>.
\<close>

theorem replacement_plan_adds_buckets:
  "replace_cluster replace_config_more_buckets
   \<and> map_option fst (determine_cluster_operations (flat_env 0 []) replace_config_more_buckets
                        3 0 ''pw'' old_record_world)
       = Some (Inr \<lparr>new_cluster = True, add_nodes = False, remove_nodes = False,
                    add_buckets = True, increase_limit = False\<rparr>)"
  by (simp add: planner_eval store_eval replace_config_ok old_record_world_def empty_world_def)

subsection \<open>Membership changes\<close>

lemma verify_returns:
  "verify_old_nodes_removed all_nodes old w = Some (Inr u, w')
     \<Longrightarrow> set all_nodes \<inter> set old = {} \<and> w' = w"
  by (induction all_nodes) (auto split: if_splits)

lemma verify_raises:
  "set all_nodes \<inter> set old \<noteq> {}
     \<Longrightarrow> \<exists>node_id \<in> set all_nodes \<inter> set old.
           verify_old_nodes_removed all_nodes old w
             = Some (Inl (ProvisioningError (old_node_msg node_id)), w)"
  by (induction all_nodes) auto

text \<open>The ids that \<open>get_node_ids\<close> returns are, position by position, what
  \<open>get_node_id\<close> read from the addresses.\<close>

lemma get_node_ids_reads:
  "get_node_ids e ips w = Some (Inr ids, w')
     \<Longrightarrow> list_all2 (\<lambda>ip node_id. \<exists>wa wb. get_node_id e ip wa = Some (Inr node_id, wb)) ips ids"
proof (induction ips arbitrary: ids w w')
  case Nil
  then show ?case by simp
next
  case (Cons ip ips)
  from Cons.prems obtain qid w1 where
    first: "get_node_id e ip w = Some (Inr qid, w1)"
    and rest: "io_bind (get_node_ids e ips) (\<lambda>qids. io_ret (qid # qids)) w1 = Some (Inr ids, w')"
    unfolding get_node_ids.simps by (rule io_bind_returnsE)
  from rest obtain qids w2 where
    ids: "get_node_ids e ips w1 = Some (Inr qids, w2)"
    and "io_ret (qid # qids) w2 = Some (Inr ids, w')"
    by (rule io_bind_returnsE)
  then have "ids = qid # qids" by simp
  with first Cons.IH[OF ids] show ?case by auto
qed

lemma slice_from_list_all2:
  "list_all2 R xs ys \<Longrightarrow> list_all2 R (slice_from xs n) (slice_from ys n)"
  by (auto simp: slice_from_def list_all2_lengthD intro: list_all2_dropI)

text \<open>
  What a returning \<open>remove_cluster_nodes\<close> has done up to the end of its validation
  loop: read the node ids of all the target addresses from the world it started in,
  taken those from position \<open>target_node_count\<close> on as removed, and issued the
  membership command for the addresses before that position.
\<close>

lemma shrink_records:
  assumes "remove_cluster_nodes_shrink fuel e c w = Some (Inr removed, w1)"
  shows "(\<exists>ids wa. get_node_ids e (node_ips c) w = Some (Inr ids, wa)
                 \<and> removed = slice_from ids (target_node_count c))
       \<and> (\<exists>wb result wc.
             qq_command e
               (membership_args (slice_to (node_ips c) (target_node_count c))
                  (slice_to (fault_domain_ids c) (target_node_count c)))
               (node1_ip c) wb = Some (Inr result, wc))"
proof -
  from assms obtain ids wa where
    ids: "get_node_ids e (node_ips c) w = Some (Inr ids, wa)"
    and rest: "(let remaining_node_ips = slice_to (node_ips c) (target_node_count c);
         remaining_fault_ids = slice_to (fault_domain_ids c) (target_node_count c);
         removed_node_ids = slice_from ids (target_node_count c)
     in
     io_then (update_status e c
                (''Quorum already exists, removing '' @ py_str (int (length removed_node_ids))
                   @ '' nodes from cluster.''))
    (io_then (qq_command e (membership_args remaining_node_ips remaining_fault_ids) (node1_ip c))
    (io_then (wait_for_active_quorum fuel e (node1_ip c))
    (io_then (update_status e c ''New quorum formed, validating node removal.'')
    (io_then (wait_for_membership fuel e (node1_ip c) (length remaining_node_ips))
             (io_ret removed_node_ids)))))) wa = Some (Inr removed, w1)"
    unfolding remove_cluster_nodes_shrink_def by (rule io_bind_returnsE)
  from rest obtain u1 wb where
    "update_status e c
       (''Quorum already exists, removing ''
          @ py_str (int (length (slice_from ids (target_node_count c))))
          @ '' nodes from cluster.'') wa = Some (Inr u1, wb)"
    and rest2: "io_then
       (qq_command e
          (membership_args (slice_to (node_ips c) (target_node_count c))
             (slice_to (fault_domain_ids c) (target_node_count c))) (node1_ip c))
       (io_then (wait_for_active_quorum fuel e (node1_ip c))
       (io_then (update_status e c ''New quorum formed, validating node removal.'')
       (io_then (wait_for_membership fuel e (node1_ip c)
                   (length (slice_to (node_ips c) (target_node_count c))))
                (io_ret (slice_from ids (target_node_count c)))))) wb = Some (Inr removed, w1)"
    unfolding Let_def by (rule io_then_returnsE)
  from rest2 obtain result wc where
    cmd: "qq_command e
            (membership_args (slice_to (node_ips c) (target_node_count c))
               (slice_to (fault_domain_ids c) (target_node_count c))) (node1_ip c) wb
            = Some (Inr result, wc)"
    and rest3: "io_then (wait_for_active_quorum fuel e (node1_ip c))
       (io_then (update_status e c ''New quorum formed, validating node removal.'')
       (io_then (wait_for_membership fuel e (node1_ip c)
                   (length (slice_to (node_ips c) (target_node_count c))))
                (io_ret (slice_from ids (target_node_count c))))) wc = Some (Inr removed, w1)"
    by (rule io_then_returnsE)
  from rest3 have "removed = slice_from ids (target_node_count c)"
    by (auto elim!: io_then_returnsE)
  with ids cmd show ?thesis by blast
qed

lemma shrink_removes_tail:
  assumes "remove_cluster_nodes_shrink fuel e c w = Some (Inr removed, w1)"
  shows "list_all2 (\<lambda>ip node_id. \<exists>wa wb. get_node_id e ip wa = Some (Inr node_id, wb))
           (slice_from (node_ips c) (target_node_count c)) removed"
proof -
  from shrink_records[OF assms] obtain ids wa where
    ids: "get_node_ids e (node_ips c) w = Some (Inr ids, wa)"
    and removed: "removed = slice_from ids (target_node_count c)"
    by blast
  from get_node_ids_reads[OF ids] show ?thesis
    unfolding removed by (rule slice_from_list_all2)
qed


subsection \<open>The capacity increase\<close>


text \<open>
  Claim C7. In every flag set the planner returns, \<open>increase_limit\<close> is set only when
  \<open>add_buckets\<close> is not set in the same run and the target capacity limit is strictly
  above the persisted limit (the decimal number stored as \<open>soft-capacity-limit\<close> in
  the record the planner diffs against). So no returned flag set has both
  \<open>add_buckets\<close> and \<open>increase_limit\<close>.
\<close>

theorem capacity_increase_excludes_bucket_addition:
  assumes "determine_cluster_operations e c out_quorum in_quorum password w = Some (Inr fl, w')"
  shows "\<not> (add_buckets fl \<and> increase_limit fl)
       \<and> (increase_limit fl \<longrightarrow>
            \<not> add_buckets fl
            \<and> (\<exists>old_limit.
                  py_int (stored w (record_url c (diff_deployment c) ''soft-capacity-limit'')
                            ''soft-capacity-limit'') = Inr old_limit
                  \<and> old_limit < capacity_limit c))"
proof -
  from assms obtain fl0 w1 where
    n: "determine_node_operations e c out_quorum in_quorum password w = Some (Inr fl0, w1)"
    and b: "determine_bucket_operations e c fl0 w1 = Some (Inr fl, w')"
    unfolding determine_cluster_operations_def by (rule io_bind_returnsE)
  have "same_records c w w1"
    using keeps_records_node_operations n by (rule keeps_recordsD)
  then have "stored w1 (record_url c (diff_deployment c) ''soft-capacity-limit'')
               ''soft-capacity-limit''
             = stored w (record_url c (diff_deployment c) ''soft-capacity-limit'')
                 ''soft-capacity-limit''"
    by (rule same_records_stored) (simp add: record_url_not_status)
  with node_operations_flags[OF n] bucket_operations_flags[OF b]
  show ?thesis by auto
qed

theorem capacity_increase_excludes_bucket_addition_witness:
  "map_option fst (determine_cluster_operations (flat_env 0 []) replace_config 3 0 ''pw''
                     old_record_world)
     = Some (Inr \<lparr>new_cluster = True, add_nodes = False, remove_nodes = False,
                  add_buckets = False, increase_limit = True\<rparr>)
   \<and> py_int (stored old_record_world
               (record_url replace_config (diff_deployment replace_config) ''soft-capacity-limit'')
               ''soft-capacity-limit'') = Inr 100
   \<and> (100::int) < capacity_limit replace_config"
proof -
  have run: "map_option fst (determine_cluster_operations (flat_env 0 []) replace_config 3 0
                               ''pw'' old_record_world)
               = Some (Inr \<lparr>new_cluster = True, add_nodes = False, remove_nodes = False,
                            add_buckets = False, increase_limit = True\<rparr>)"
    by (simp add: planner_eval store_eval replace_config_ok old_record_world_def
          empty_world_def)
  then obtain w' where
    "determine_cluster_operations (flat_env 0 []) replace_config 3 0 ''pw'' old_record_world
       = Some (Inr \<lparr>new_cluster = True, add_nodes = False, remove_nodes = False,
                    add_buckets = False, increase_limit = True\<rparr>, w')"
    by auto
  from capacity_increase_excludes_bucket_addition[OF this]
  obtain old_limit where
    "py_int (stored old_record_world
               (record_url replace_config (diff_deployment replace_config)
                  ''soft-capacity-limit'')
               ''soft-capacity-limit'') = Inr old_limit"
    "old_limit < capacity_limit replace_config"
    by auto
  moreover have "py_int (stored old_record_world
               (record_url replace_config (diff_deployment replace_config)
                  ''soft-capacity-limit'')
               ''soft-capacity-limit'') = Inr 100"
    by (simp add: planner_eval store_eval diff_deployment_def old_record_world_def
          empty_world_def)
  ultimately show ?thesis using run by simp
qed



subsection \<open>Node additions and removals\<close>

lemma node_changes_plan:
  assumes ok: "config_ok c" and http: "\<forall>t. http_ok e t"
    and persisted: "stored w (record_url c (deployment_unique_name c) ''node-ips'') ''node-ips''
                      = old_ips_str"
    and present: "old_ips_str \<noteq> ''null''"
    and run: "determine_node_changes e c w = Some (Inr fl, w1)"
  shows "add_nodes fl = (not_in (node_ips c) (deserialize_list_from_firestore old_ips_str) \<noteq> [])
       \<and> remove_nodes fl
           = (target_node_count c < int (length (deserialize_list_from_firestore old_ips_str)))"
proof -
  let ?P = "deserialize_list_from_firestore old_ips_str"
  have get1: "firestore_get e c ''node-ips'' None w
                = Some (Inr old_ips_str, w\<lparr>clock := clock w + 1\<rparr>)"
    using firestore_get_ok[OF ok, of "''node-ips''" e w None] http persisted
    by (simp add: resolve_deployment_def)
  have get2: "firestore_get_list e c ''node-ips'' None (w\<lparr>clock := clock w + 1\<rparr>)
                = Some (Inr ?P, w\<lparr>clock := clock w + 2\<rparr>)"
    using firestore_get_ok[OF ok, of "''node-ips''" e "w\<lparr>clock := clock w + 1\<rparr>" None] http
      persisted
    by (simp add: firestore_get_list_def io_bind_def resolve_deployment_def stored_def)
  from run obtain v wa where
    g1: "firestore_get e c ''node-ips'' None w = Some (Inr v, wa)"
    and k1: "(if v \<noteq> ''null'' then
         io_bind (firestore_get_list e c ''node-ips'' None) (\<lambda>old_ips.
         io_bind
           (case not_in (node_ips c) old_ips of
              [] \<Rightarrow> io_ret False
            | first_upgrade_ip # _ \<Rightarrow>
                io_bind (get_qfsd_version e first_upgrade_ip) (\<lambda>add_ver.
                io_bind (firestore_get e c ''installed-version'' None) (\<lambda>current_ver.
                  if current_ver \<noteq> add_ver
                  then io_then (update_status e c (version_mismatch_msg current_ver add_ver))
                         (io_raise (ProvisioningError
                                      (version_mismatch_msg current_ver add_ver)))
                  else io_ret True)))
           (\<lambda>adding.
              io_ret (no_operations
                        \<lparr>add_nodes := adding,
                         remove_nodes := (int (length old_ips) > target_node_count c)\<rparr>)))
       else io_ret no_operations) wa = Some (Inr fl, w1)"
    unfolding determine_node_changes_def by (rule io_bind_returnsE)
  from g1 get1 have v: "v = old_ips_str" and wa: "wa = w\<lparr>clock := clock w + 1\<rparr>"
    by simp_all
  from k1 v present obtain old_ips wb where
    g2: "firestore_get_list e c ''node-ips'' None wa = Some (Inr old_ips, wb)"
    and k2: "io_bind
           (case not_in (node_ips c) old_ips of
              [] \<Rightarrow> io_ret False
            | first_upgrade_ip # _ \<Rightarrow>
                io_bind (get_qfsd_version e first_upgrade_ip) (\<lambda>add_ver.
                io_bind (firestore_get e c ''installed-version'' None) (\<lambda>current_ver.
                  if current_ver \<noteq> add_ver
                  then io_then (update_status e c (version_mismatch_msg current_ver add_ver))
                         (io_raise (ProvisioningError
                                      (version_mismatch_msg current_ver add_ver)))
                  else io_ret True)))
           (\<lambda>adding.
              io_ret (no_operations
                        \<lparr>add_nodes := adding,
                         remove_nodes := (int (length old_ips) > target_node_count c)\<rparr>))
           wb = Some (Inr fl, w1)"
    by (auto elim: io_bind_returnsE)
  from g2 get2 wa have P: "old_ips = ?P" by simp
  from k2 obtain adding wc where
    k3: "(case not_in (node_ips c) old_ips of
              [] \<Rightarrow> io_ret False
            | first_upgrade_ip # _ \<Rightarrow>
                io_bind (get_qfsd_version e first_upgrade_ip) (\<lambda>add_ver.
                io_bind (firestore_get e c ''installed-version'' None) (\<lambda>current_ver.
                  if current_ver \<noteq> add_ver
                  then io_then (update_status e c (version_mismatch_msg current_ver add_ver))
                         (io_raise (ProvisioningError
                                      (version_mismatch_msg current_ver add_ver)))
                  else io_ret True))) wb = Some (Inr adding, wc)"
    and fl: "fl = no_operations\<lparr>add_nodes := adding,
                  remove_nodes := (int (length old_ips) > target_node_count c)\<rparr>"
    by (auto elim!: io_bind_returnsE)
  have "adding = (not_in (node_ips c) old_ips \<noteq> [])"
    using k3
    by (auto elim!: io_bind_returnsE io_then_returnsE split: list.splits if_splits)
  with fl P show ?thesis by (simp add: no_operations_def)
qed


lemma not_in_set: "set (not_in new old) = set new - set old"
  by (auto simp: not_in_def)

lemma slice_from_subset: "set (slice_from xs n) \<subseteq> set xs"
  by (auto simp: slice_from_def dest: in_set_dropD)



lemma running_env_simps [simp]:
  "run_reply running_env = running_reply"
  "http_ok running_env t"
  "now running_env t = demo_time"
  by (simp_all add: running_env_def flat_env_def)

lemma running_details_parsed:
  "clock w < 100 \<Longrightarrow>
   parse_quorum_details running_env ''10.0.0.1'' w =
     Some (Inr ([''1'', ''2'', ''3''], [''1'', ''2'', ''3''], []),
           w\<lparr>clock := clock w + 1,
             issued := issued w @ [''./qq --host 10.0.0.1 raw GET /v1/debug/quorum/details'']\<rparr>)"
  by (simp add: parse_quorum_details_def io_bind_def qq_command_apply run_command_timed
        running_reply_def quorum_details_def parse_node_list_def match_node_list_def
        json_dumps_str_def str_strip_chars_def str_strip_def py_isspace_def Let_def)

lemma running_details_parsed_late:
  "100 \<le> clock w \<Longrightarrow>
   parse_quorum_details running_env ''10.0.0.1'' w =
     Some (Inr ([''1'', ''2''], [''1'', ''2''], []),
           w\<lparr>clock := clock w + 1,
             issued := issued w @ [''./qq --host 10.0.0.1 raw GET /v1/debug/quorum/details'']\<rparr>)"
  by (simp add: parse_quorum_details_def io_bind_def qq_command_apply run_command_timed
        running_reply_def quorum_details_def parse_node_list_def match_node_list_def
        json_dumps_str_def str_strip_chars_def str_strip_def py_isspace_def Let_def)

lemma running_version:
  "get_qfsd_version running_env ''10.0.0.4'' w =
     Some (Inr ''7.6.0'',
           w\<lparr>clock := clock w + 1, issued := issued w @ [''./qq --host 10.0.0.4 version'']\<rparr>)"
  by (simp add: get_qfsd_version_def io_bind_def qq_command_apply run_command_timed
        running_reply_def digits_and_periods_def ascii_digit_def)

lemma running_login:
  "qq_command running_env ''login -u admin -p pw'' ''10.0.0.1'' w =
     Some (Inr (0, []),
           w\<lparr>clock := clock w + 1,
             issued := issued w @ [''./qq --host 10.0.0.1 login -u admin -p pw'']\<rparr>)"
  by (simp add: qq_command_apply run_command_timed running_reply_def)

lemma running_node_id:
  "get_node_id running_env ''10.0.0.1'' w =
     Some (Inr ''1'', w\<lparr>clock := clock w + 1,
                       issued := issued w @ [''./qq --host 10.0.0.1 node_state_get'']\<rparr>)"
  "get_node_id running_env ''10.0.0.2'' w =
     Some (Inr ''2'', w\<lparr>clock := clock w + 1,
                       issued := issued w @ [''./qq --host 10.0.0.2 node_state_get'']\<rparr>)"
  "get_node_id running_env ''10.0.0.4'' w =
     Some (Inr ''4'', w\<lparr>clock := clock w + 1,
                       issued := issued w @ [''./qq --host 10.0.0.4 node_state_get'']\<rparr>)"
  by (simp_all add: get_node_id_def io_bind_def qq_command_apply run_command_timed
        running_reply_def node_state_def first_line_with_def first_item_def
        digits_and_periods_def ascii_digit_def)

lemma swap_config_simps [simp]:
  "project swap_config = ''p''"
  "storage_deployment_name swap_config = ''db''"
  "deployment_unique_name swap_config = ''dep''"
  "node_ips swap_config = [''10.0.0.1'', ''10.0.0.2'', ''10.0.0.4'']"
  "fault_domain_ids swap_config = [''1'', ''2'', ''3'']"
  "node1_ip swap_config = ''10.0.0.1''"
  "bucket_names swap_config = [''b1'']"
  "bucket_uris swap_config = [''gs://b1/'']"
  "capacity_limit swap_config = 200"
  "target_node_count swap_config = 2"
  "replace_cluster swap_config = False"
  "existing_deployment_name swap_config = None"
  by (simp_all add: swap_config_def demo_config_def)

lemma swap_config_ok: "config_ok swap_config"
  by (simp add: config_ok_def)

lemma swap_persisted:
  "stored running_world (record_url swap_config (deployment_unique_name swap_config) ''node-ips'')
     ''node-ips'' = ''10.0.0.1,10.0.0.2,10.0.0.3''"
  by (simp add: store_eval running_world_def empty_world_def)

lemma swap_plan:
  "map_option fst (determine_cluster_operations running_env swap_config 0 3 ''pw''
                     running_world)
     = Some (Inr \<lparr>new_cluster = False, add_nodes = True, remove_nodes = True,
                  add_buckets = False, increase_limit = False\<rparr>)"
  by (simp add: planner_eval store_eval swap_config_ok running_login running_details_parsed
        running_version running_world_def empty_world_def)

text \<open>The removal for the swap target, from logical time 100: the ids 1, 2 and 4 are
  read, the membership command keeps 10.0.0.1 and 10.0.0.2, and the id recorded as
  removed is 4.\<close>

lemma swap_shrink_run:
  "map_option (\<lambda>(removed, w). (removed, issued w))
       (remove_cluster_nodes_shrink (Suc 0) running_env swap_config removal_world)
       = Some (Inr [''4''],
               [''./qq --host 10.0.0.1 node_state_get'', ''./qq --host 10.0.0.2 node_state_get'',
                ''./qq --host 10.0.0.4 node_state_get'',
                ''./qq --host 10.0.0.1 modify_object_backed_cluster_membership --node-ips-and-fault-domains 10.0.0.1,1 10.0.0.2,2 --batch'',
                ''./qq --host 10.0.0.1 node_state_get'',
                ''./qq --host 10.0.0.1 raw GET /v1/debug/quorum/details''])"
  by (simp add: remove_cluster_nodes_shrink_def io_then_def io_bind_def Let_def
        slice_to_def slice_from_def membership_args_def node_ips_fault_ids_def
        running_node_id running_details_parsed_late
        qq_command_apply run_command_timed running_reply_def node_state_def
        store_eval swap_config_ok py_str_def string_of_nat.simps digit_char_def
        removal_world_def running_world_def empty_world_def)

lemma swap_shrink:
  "map_option fst (remove_cluster_nodes_shrink (Suc 0) running_env swap_config removal_world)
     = Some (Inr [''4''])"
  using swap_shrink_run
  by (cases "remove_cluster_nodes_shrink (Suc 0) running_env swap_config removal_world") auto




subsection \<open>The bucket check of cluster creation\<close>

lemma check_buckets_world:
  assumes "check_buckets_empty e bs proj w = Some (r, w')"
  shows "\<exists>k. k \<le> length bs
           \<and> w' = w\<lparr>clock := clock w + k,
                     issued := issued w @ map (\<lambda>n. bucket_list_cmd n proj) (take k bs)\<rparr>
           \<and> (isl r \<longrightarrow> 0 < k)"
  using assms
proof (induction bs arbitrary: w)
  case Nil
  then have "w' = w" and "r = Inr ()" by simp_all
  then show ?case by (intro exI[of _ 0]) simp
next
  case (Cons b bs)
  let ?w1 = "w\<lparr>clock := clock w + 1, issued := issued w @ [bucket_list_cmd b proj]\<rparr>"
  show ?case
  proof (cases "\<exists>out. run_reply e (clock w) (bucket_list_cmd b proj) = Completed 0 out
                   \<and> str_strip out = []")
    case True
    then have "check_buckets_empty e (b # bs) proj w = check_buckets_empty e bs proj ?w1"
      by (auto simp: io_bind_def gcloud_command_def run_command_timed bucket_list_cmd_def)
    with Cons.prems have "check_buckets_empty e bs proj ?w1 = Some (r, w')" by simp
    from Cons.IH[OF this] obtain k where k: "k \<le> length bs"
      "w' = ?w1\<lparr>clock := clock ?w1 + k,
                 issued := issued ?w1 @ map (\<lambda>n. bucket_list_cmd n proj) (take k bs)\<rparr>"
      by blast
    then show ?thesis by (intro exI[of _ "Suc k"]) simp
  next
    case False
    then have "w' = ?w1 \<and> isl r"
      using Cons.prems
      by (auto simp: io_bind_def gcloud_command_def run_command_timed bucket_list_cmd_def
          split: proc_outcome.splits if_splits)
    then show ?thesis by (intro exI[of _ "Suc 0"]) simp
  qed
qed

lemma check_buckets_nonempty:
  assumes "b \<in> set bs"
    and "\<forall>t. \<exists>out. run_reply e t (bucket_list_cmd b proj) = Completed 0 out \<and> str_strip out \<noteq> []"
  shows "\<exists>err w'. check_buckets_empty e bs proj w = Some (Inl err, w')"
  using assms(1)
proof (induction bs arbitrary: w)
  case Nil
  then show ?case by simp
next
  case (Cons x bs)
  let ?w1 = "w\<lparr>clock := clock w + 1, issued := issued w @ [bucket_list_cmd x proj]\<rparr>"
  show ?case
  proof (cases "\<exists>out. run_reply e (clock w) (bucket_list_cmd x proj) = Completed 0 out
                   \<and> str_strip out = []")
    case True
    with assms(2) have "x \<noteq> b" by (metis proc_outcome.inject)
    with Cons.prems have "b \<in> set bs" by simp
    moreover from True
    have "check_buckets_empty e (x # bs) proj w = check_buckets_empty e bs proj ?w1"
      by (auto simp: io_bind_def gcloud_command_def run_command_timed bucket_list_cmd_def)
    ultimately show ?thesis using Cons.IH by simp
  next
    case False
    then show ?thesis
      by (auto simp: io_bind_def gcloud_command_def run_command_timed bucket_list_cmd_def
          split: proc_outcome.splits if_splits)
  qed
qed

text \<open>
  Claim C4. \<open>create_new_cluster\<close> begins with \<open>check_buckets_empty\<close> over the
  target buckets. If the listing of some target bucket reports an object, the creation
  raises, and the world it leaves differs from the one it started in only by the bucket
  listings issued up to that point: the commands run are \<open>gcloud storage objects list\<close>
  on the first \<open>k\<close> target buckets and nothing else, so the cluster-formation command
  has not been issued, no document has been written and the network configuration file
  is untouched.
\<close>

theorem nonempty_bucket_stops_creation:
  assumes "b \<in> set (bucket_names c)"
    and "\<forall>t. \<exists>out. run_reply e t (bucket_list_cmd b (project c)) = Completed 0 out
                    \<and> str_strip out \<noteq> []"
  shows "\<exists>err k. 0 < k \<and> k \<le> length (bucket_names c)
           \<and> create_new_cluster fuel e c password w =
               Some (Inl err,
                     w\<lparr>clock := clock w + k,
                       issued := issued w @ map (\<lambda>n. bucket_list_cmd n (project c))
                                              (take k (bucket_names c))\<rparr>)"
proof -
  from check_buckets_nonempty[OF assms] obtain err w' where
    raised: "check_buckets_empty e (bucket_names c) (project c) w = Some (Inl err, w')"
    by blast
  from check_buckets_world[OF raised] obtain k where
    "k \<le> length (bucket_names c)" "0 < k"
    "w' = w\<lparr>clock := clock w + k,
            issued := issued w @ map (\<lambda>n. bucket_list_cmd n (project c))
                                   (take k (bucket_names c))\<rparr>"
    by auto
  moreover have "create_new_cluster fuel e c password w = Some (Inl err, w')"
    using raised by (simp add: create_new_cluster_def io_then_def io_bind_def)
  ultimately show ?thesis by blast
qed

theorem nonempty_bucket_stops_creation_witness:
  "''b1'' \<in> set (bucket_names demo_config)
   \<and> (\<exists>err. create_new_cluster 0 (flat_env 0 ''gs://b1/data'') demo_config ''pw'' empty_world =
               Some (Inl err,
                     empty_world\<lparr>clock := 1,
                                 issued := [''gcloud storage objects list \"gs://b1\" --project=p --limit=1'']\<rparr>))"
proof -
  have h1: "''b1'' \<in> set (bucket_names demo_config)"
    by (simp add: demo_config_def)
  have h2: "\<forall>t. \<exists>out. run_reply (flat_env 0 ''gs://b1/data'') t
                          (bucket_list_cmd ''b1'' (project demo_config)) = Completed 0 out
                    \<and> str_strip out \<noteq> []"
    by (simp add: flat_env_def str_strip_def py_isspace_def)
  have one: "\<And>k. 0 < k \<Longrightarrow> k \<le> Suc 0 \<Longrightarrow> k = Suc 0" by simp
  show ?thesis
    using nonempty_bucket_stops_creation[OF h1 h2, of 0 "''pw''" empty_world] h1
    by (auto simp: demo_config_def empty_world_def bucket_list_cmd_def bucket_list_args_def
          json_dumps_str_def dest!: one)
qed


subsection \<open>Executing the operations\<close>

text \<open>
  Claim C10. When the configuration asks for a replacement and the planner has not
  decided on a new cluster, \<open>execute_cluster_operations\<close> raises
  \<open>ProvisioningError("Cannot replace cluster without deploying new nodes")\<close> and leaves
  the world as it found it: no command has been issued (no login, membership change,
  bucket, capacity or floating-address command) and no document written.
\<close>

theorem replace_needs_new_cluster:
  assumes "replace_cluster c" and "\<not> new_cluster flags"
  shows "execute_cluster_operations fuel e c password flags w =
           Some (Inl (ProvisioningError ''Cannot replace cluster without deploying new nodes''), w)"
  using assms
  by (simp add: execute_cluster_operations_def io_then_def io_bind_def cannot_replace_msg_def
        Let_def)

theorem replace_needs_new_cluster_witness:
  "execute_cluster_operations 0 (flat_env 0 [])
     (demo_config\<lparr>replace_cluster := True, existing_deployment_name := Some ''old''\<rparr>) ''pw''
     no_operations empty_world =
   Some (Inl (ProvisioningError ''Cannot replace cluster without deploying new nodes''),
         empty_world)"
  using replace_needs_new_cluster
          [of "demo_config\<lparr>replace_cluster := True, existing_deployment_name := Some ''old''\<rparr>"
              no_operations 0 "flat_env 0 []" "''pw''" empty_world]
  by (simp add: no_operations_def)


end
